theory Spec2Isabelle
  imports Complex_Main
begin

section \<open>Geometry values\<close>

text \<open>
  A geometry value is a spatial reference identifier together with a shape. The shapes
  are the simple kinds the schema stores (point, line string, polygon) and the multi-part
  and collection kinds that the import staging tables may hold. A coordinate is a pair
  (longitude, latitude).
\<close>

type_synonym coord = "real \<times> real"

datatype shape =
    Point coord
  | LineString "coord list"
  | Polygon "coord list list"
  | MultiPoint "coord list"
  | MultiLineString "coord list list"
  | MultiPolygon "coord list list list"
  | GeometryCollection "shape list"

record geometry =
  srid :: int
  shape :: shape

text \<open>\<open>GeometryType\<close> is the upper-case kind name that the SQL compares against.\<close>

fun shape_type :: "shape \<Rightarrow> string" where
  "shape_type (Point c) = ''POINT''"
| "shape_type (LineString cs) = ''LINESTRING''"
| "shape_type (Polygon rs) = ''POLYGON''"
| "shape_type (MultiPoint cs) = ''MULTIPOINT''"
| "shape_type (MultiLineString ls) = ''MULTILINESTRING''"
| "shape_type (MultiPolygon ps) = ''MULTIPOLYGON''"
| "shape_type (GeometryCollection gs) = ''GEOMETRYCOLLECTION''"

definition GeometryType :: "geometry \<Rightarrow> string" where
  "GeometryType g = shape_type (shape g)"

definition ST_SRID :: "geometry \<Rightarrow> int" where
  "ST_SRID g = srid g"

definition ST_SetSRID :: "geometry \<Rightarrow> int \<Rightarrow> geometry" where
  "ST_SetSRID g s = g\<lparr>srid := s\<rparr>"

text \<open>\<open>ST_MakePoint(x, y)\<close> builds a point with unknown reference system (0).\<close>

definition ST_MakePoint :: "real \<Rightarrow> real \<Rightarrow> geometry" where
  "ST_MakePoint x y = \<lparr>srid = 0, shape = Point (x, y)\<rparr>"

text \<open>
  The parts of a geometry: the members of a multi-part or collection value, and the value
  itself for a simple kind. \<open>ST_NumGeometries\<close> counts them and \<open>ST_GeometryN\<close>
  reads the part at a 1-based index (NULL, here \<open>None\<close>, out of range).
\<close>

fun parts :: "shape \<Rightarrow> shape list" where
  "parts (MultiPoint cs) = map Point cs"
| "parts (MultiLineString ls) = map LineString ls"
| "parts (MultiPolygon ps) = map Polygon ps"
| "parts (GeometryCollection gs) = gs"
| "parts s = [s]"

definition ST_NumGeometries :: "geometry \<Rightarrow> nat" where
  "ST_NumGeometries g = length (parts (shape g))"

definition ST_GeometryN :: "geometry \<Rightarrow> nat \<Rightarrow> geometry option" where
  "ST_GeometryN g i =
     (if 1 \<le> i \<and> i \<le> ST_NumGeometries g
      then Some \<lparr>srid = srid g, shape = parts (shape g) ! (i - 1)\<rparr>
      else None)"

text \<open>
  The values \<open>ST_GeometryN(geom, i)\<close> for \<open>i\<close> from 1 to \<open>ST_NumGeometries(geom)\<close>,
  in the order in which a \<open>FOR i IN 1..n\<close> loop reads them.
\<close>

definition geometries_1_to_n :: "geometry \<Rightarrow> geometry list" where
  "geometries_1_to_n g =
     List.map_filter (\<lambda>i. ST_GeometryN g i) [1..<Suc (ST_NumGeometries g)]"

section \<open>The spatial library\<close>

text \<open>
  The metric and topological functions of the spatial extension are not part of the
  repository. They are collected in a record, and every definition and theorem below
  takes that record as a parameter. The fields with suffix \<open>geog\<close> are the functions
  applied to arguments cast to \<open>geography\<close>: they measure in metres and square metres.
  Values of type \<open>FLOAT\<close> are modelled as real numbers; the rounding of float
  arithmetic is not modelled.
\<close>

record kernel =
  ST_Within :: "geometry \<Rightarrow> geometry \<Rightarrow> bool"
  ST_Contains :: "geometry \<Rightarrow> geometry \<Rightarrow> bool"
  ST_IsValid :: "geometry \<Rightarrow> bool"
  ST_Area :: "geometry \<Rightarrow> real"
  ST_Intersection :: "geometry \<Rightarrow> geometry \<Rightarrow> geometry"
  ST_Centroid :: "geometry \<Rightarrow> geometry"
  ST_Distance_geog :: "geometry \<Rightarrow> geometry \<Rightarrow> real"
  ST_Area_geog :: "geometry \<Rightarrow> real"
  ST_Length_geog :: "geometry \<Rightarrow> real"
  ST_Buffer_geog :: "geometry \<Rightarrow> real \<Rightarrow> geometry"

text \<open>
  \<open>ST_DWithin(a::geography, b::geography, d)\<close> holds when the two values are within
  distance \<open>d\<close> of each other, that is, when their distance is at most \<open>d\<close>.
\<close>

definition ST_DWithin_geog :: "kernel \<Rightarrow> geometry \<Rightarrow> geometry \<Rightarrow> real \<Rightarrow> bool" where
  "ST_DWithin_geog K a b d = (ST_Distance_geog K a b \<le> d)"

section \<open>Normalising imported geometries\<close>

text \<open>
  The loop of \<open>normalize_to_polygon\<close> over a multi-polygon: it keeps the running
  maximum area (initially 0) and the part that reached it (initially NULL), and replaces
  both only when a part's area is strictly greater.
\<close>

fun polygon_loop :: "kernel \<Rightarrow> geometry list \<Rightarrow> real \<Rightarrow> geometry option \<Rightarrow> geometry option" where
  "polygon_loop K [] max_area result = result"
| "polygon_loop K (current_geom # rest) max_area result =
     (let current_area = ST_Area_geog K current_geom
      in if current_area > max_area
         then polygon_loop K rest current_area (Some current_geom)
         else polygon_loop K rest max_area result)"

text \<open>The loop over a geometry collection looks at the parts of kind polygon only.\<close>

fun collection_polygon_loop ::
  "kernel \<Rightarrow> geometry list \<Rightarrow> real \<Rightarrow> geometry option \<Rightarrow> geometry option" where
  "collection_polygon_loop K [] max_area result = result"
| "collection_polygon_loop K (current_geom # rest) max_area result =
     (if GeometryType current_geom = ''POLYGON''
      then (let current_area = ST_Area_geog K current_geom
            in if current_area > max_area
               then collection_polygon_loop K rest current_area (Some current_geom)
               else collection_polygon_loop K rest max_area result)
      else collection_polygon_loop K rest max_area result)"

definition normalize_to_polygon :: "kernel \<Rightarrow> geometry option \<Rightarrow> geometry option" where
  "normalize_to_polygon K geom_arg =
     (case geom_arg of
        None \<Rightarrow> None
      | Some geom \<Rightarrow>
          (let geom_type = GeometryType geom
           in if geom_type = ''POLYGON'' then Some geom
              else if geom_type = ''MULTIPOLYGON''
                then polygon_loop K (geometries_1_to_n geom) 0 None
              else if geom_type = ''GEOMETRYCOLLECTION''
                then collection_polygon_loop K (geometries_1_to_n geom) 0 None
              else if geom_type = ''POINT''
                then Some (ST_Buffer_geog K geom 2.5)
              else None))"

fun linestring_loop ::
  "kernel \<Rightarrow> geometry list \<Rightarrow> real \<Rightarrow> geometry option \<Rightarrow> geometry option" where
  "linestring_loop K [] max_length result = result"
| "linestring_loop K (current_geom # rest) max_length result =
     (let current_length = ST_Length_geog K current_geom
      in if current_length > max_length
         then linestring_loop K rest current_length (Some current_geom)
         else linestring_loop K rest max_length result)"

fun collection_linestring_loop ::
  "kernel \<Rightarrow> geometry list \<Rightarrow> real \<Rightarrow> geometry option \<Rightarrow> geometry option" where
  "collection_linestring_loop K [] max_length result = result"
| "collection_linestring_loop K (current_geom # rest) max_length result =
     (if GeometryType current_geom = ''LINESTRING''
      then (let current_length = ST_Length_geog K current_geom
            in if current_length > max_length
               then collection_linestring_loop K rest current_length (Some current_geom)
               else collection_linestring_loop K rest max_length result)
      else collection_linestring_loop K rest max_length result)"

definition normalize_to_linestring :: "kernel \<Rightarrow> geometry option \<Rightarrow> geometry option" where
  "normalize_to_linestring K geom_arg =
     (case geom_arg of
        None \<Rightarrow> None
      | Some geom \<Rightarrow>
          (let geom_type = GeometryType geom
           in if geom_type = ''LINESTRING'' then Some geom
              else if geom_type = ''MULTILINESTRING''
                then linestring_loop K (geometries_1_to_n geom) 0 None
              else if geom_type = ''GEOMETRYCOLLECTION''
                then collection_linestring_loop K (geometries_1_to_n geom) 0 None
              else None))"

definition normalize_to_point :: "kernel \<Rightarrow> geometry option \<Rightarrow> geometry option" where
  "normalize_to_point K geom_arg =
     (case geom_arg of
        None \<Rightarrow> None
      | Some geom \<Rightarrow>
          if GeometryType geom = ''POINT'' then Some geom
          else Some (ST_Centroid K geom))"


section \<open>Tables\<close>

text \<open>
  A table is the list of its rows. Only the columns that the functions below read or
  write are kept. A column that the schema lets be NULL has an option type; so has a
  foreign key that a row-level BEFORE trigger reads, since the trigger runs before the
  NOT NULL constraint is checked. The status columns are restricted by CHECK constraints
  to the listed values.
\<close>

datatype bay_status = Available | Occupied | Closed | Reserved

datatype session_status = Active | Completed | Overstay | Cancelled

record zone_row =
  pz_zone_id :: int
  pz_name :: string
  pz_is_active :: "bool option"
  pz_geom :: geometry

record bay_row =
  pb_bay_id :: int
  pb_zone_id :: "int option"
  pb_bay_number :: string
  pb_is_disabled_only :: "bool option"
  pb_is_electric :: "bool option"
  pb_status :: "bay_status option"
  pb_last_status_update :: nat
  pb_geom :: geometry

record sensor_row =
  s_sensor_id :: int
  s_bay_id :: "int option"
  s_geom :: geometry

record violation_row =
  v_violation_id :: int
  v_bay_id :: "int option"
  v_geom :: geometry

record session_row =
  ps_session_id :: int
  ps_bay_id :: "int option"
  ps_status :: "session_status option"

text \<open>
  \<open>SELECT ... INTO ... FROM parking_zones WHERE zone_id = k\<close> reads the first matching
  row and leaves the targets NULL when there is none; a NULL key matches no row.
\<close>

definition select_zone :: "zone_row list \<Rightarrow> int option \<Rightarrow> zone_row option" where
  "select_zone zones k =
     (case k of None \<Rightarrow> None | Some i \<Rightarrow> find (\<lambda>pz. pz_zone_id pz = i) zones)"

definition select_bay :: "bay_row list \<Rightarrow> int option \<Rightarrow> bay_row option" where
  "select_bay bays k =
     (case k of None \<Rightarrow> None | Some i \<Rightarrow> find (\<lambda>pb. pb_bay_id pb = i) bays)"

section \<open>Errors and trigger events\<close>

text \<open>
  Each \<open>RAISE EXCEPTION\<close> of the source is one constructor; \<open>division_by_zero\<close> is
  the error of the float division, and \<open>unique_violation\<close> that of a primary key.
  The sensor error carries the threshold and the measured distance (the message prints
  the distance rounded to two decimals).
\<close>

datatype error =
    geometry_must_be string string
  | geometry_must_have_SRID_4326 int
  | geometry_is_not_valid
  | zone_does_not_exist "int option"
  | bay_overlaps_zone_by_less_than_90_percent
  | division_by_zero
  | bay_does_not_exist "int option"
  | sensor_must_be_within_meters real real
  | violation_point_must_be_inside_bay
  | unique_violation

text \<open>
  The operation that fires a row-level trigger: an insert, or an update together with the
  columns named in its SET list. A trigger declared \<open>INSERT OR UPDATE OF c1, c2\<close> fires
  on every insert and on an update whose SET list names one of the columns.
\<close>

datatype tg_op = INSERT | UPDATE "string list"

fun insert_or_update_of :: "string list \<Rightarrow> tg_op \<Rightarrow> bool" where
  "insert_or_update_of cols INSERT = True"
| "insert_or_update_of cols (UPDATE set_list) = (\<exists>c \<in> set cols. c \<in> set set_list)"

definition and_then :: "error + 'a \<Rightarrow> ('a \<Rightarrow> error + 'b) \<Rightarrow> error + 'b" where
  "and_then r f = (case r of Inl e \<Rightarrow> Inl e | Inr x \<Rightarrow> f x)"

section \<open>Validation triggers\<close>

definition validate_bay_geometry_type :: "kernel \<Rightarrow> bay_row \<Rightarrow> error + bay_row" where
  "validate_bay_geometry_type K NEW =
     (if GeometryType (pb_geom NEW) \<noteq> ''POLYGON''
        then Inl (geometry_must_be ''POLYGON'' (GeometryType (pb_geom NEW)))
      else if ST_SRID (pb_geom NEW) \<noteq> 4326
        then Inl (geometry_must_have_SRID_4326 (ST_SRID (pb_geom NEW)))
      else if \<not> ST_IsValid K (pb_geom NEW)
        then Inl geometry_is_not_valid
      else Inr NEW)"

definition validate_zone_geometry_type :: "kernel \<Rightarrow> zone_row \<Rightarrow> error + zone_row" where
  "validate_zone_geometry_type K NEW =
     (if GeometryType (pz_geom NEW) \<noteq> ''POLYGON''
        then Inl (geometry_must_be ''POLYGON'' (GeometryType (pz_geom NEW)))
      else if ST_SRID (pz_geom NEW) \<noteq> 4326
        then Inl (geometry_must_have_SRID_4326 (ST_SRID (pz_geom NEW)))
      else if \<not> ST_IsValid K (pz_geom NEW)
        then Inl geometry_is_not_valid
      else Inr NEW)"

text \<open>
  \<open>validate_bay_within_zone\<close>. The quotient of the two areas is a float division, which
  raises an error when the divisor, the area of the bay, is zero.
\<close>

definition validate_bay_within_zone ::
  "kernel \<Rightarrow> zone_row list \<Rightarrow> bay_row \<Rightarrow> error + bay_row" where
  "validate_bay_within_zone K zones NEW =
     (case select_zone zones (pb_zone_id NEW) of
        None \<Rightarrow> Inl (zone_does_not_exist (pb_zone_id NEW))
      | Some pz \<Rightarrow>
          (let zone_geom = pz_geom pz
           in if \<not> ST_Within K (pb_geom NEW) zone_geom
              then (if ST_Area K (pb_geom NEW) = 0 then Inl division_by_zero
                    else if ST_Area K (ST_Intersection K (pb_geom NEW) zone_geom)
                              / ST_Area K (pb_geom NEW) < 0.9
                      then Inl bay_overlaps_zone_by_less_than_90_percent
                    else Inr NEW)
              else Inr NEW))"

definition threshold_meters :: real where
  "threshold_meters = 3.0"

definition validate_sensor_near_bay ::
  "kernel \<Rightarrow> bay_row list \<Rightarrow> sensor_row \<Rightarrow> error + sensor_row" where
  "validate_sensor_near_bay K bays NEW =
     (if s_bay_id NEW = None then Inr NEW
      else
        (case select_bay bays (s_bay_id NEW) of
           None \<Rightarrow> Inl (bay_does_not_exist (s_bay_id NEW))
         | Some pb \<Rightarrow>
             (let bay_geom = pb_geom pb
              in if ST_Within K (s_geom NEW) bay_geom then Inr NEW
                 else (let distance_meters = ST_Distance_geog K (s_geom NEW) bay_geom
                       in if distance_meters > threshold_meters
                          then Inl (sensor_must_be_within_meters threshold_meters distance_meters)
                          else Inr NEW))))"

definition validate_violation_inside_bay ::
  "kernel \<Rightarrow> bay_row list \<Rightarrow> violation_row \<Rightarrow> error + violation_row" where
  "validate_violation_inside_bay K bays NEW =
     (case select_bay bays (v_bay_id NEW) of
        None \<Rightarrow> Inl (bay_does_not_exist (v_bay_id NEW))
      | Some pb \<Rightarrow>
          (let v_bay_geom = pb_geom pb
           in if ST_Contains K v_bay_geom (v_geom NEW) then Inr NEW
              else if ST_DWithin_geog K (v_geom NEW) v_bay_geom 2.0 then Inr NEW
              else Inl violation_point_must_be_inside_bay))"

text \<open>
  The triggers themselves: each runs its function when the operation is one it is
  declared for, and passes the row on unchanged otherwise.
\<close>

definition validate_bay_geometry_type_trigger ::
  "kernel \<Rightarrow> tg_op \<Rightarrow> bay_row \<Rightarrow> error + bay_row" where
  "validate_bay_geometry_type_trigger K op NEW =
     (if insert_or_update_of [''geom''] op then validate_bay_geometry_type K NEW else Inr NEW)"

definition validate_bay_within_zone_trigger ::
  "kernel \<Rightarrow> zone_row list \<Rightarrow> tg_op \<Rightarrow> bay_row \<Rightarrow> error + bay_row" where
  "validate_bay_within_zone_trigger K zones op NEW =
     (if insert_or_update_of [''geom'', ''zone_id''] op
      then validate_bay_within_zone K zones NEW else Inr NEW)"

definition validate_zone_geometry_type_trigger ::
  "kernel \<Rightarrow> tg_op \<Rightarrow> zone_row \<Rightarrow> error + zone_row" where
  "validate_zone_geometry_type_trigger K op NEW =
     (if insert_or_update_of [''geom''] op then validate_zone_geometry_type K NEW else Inr NEW)"

definition validate_sensor_near_bay_trigger ::
  "kernel \<Rightarrow> bay_row list \<Rightarrow> tg_op \<Rightarrow> sensor_row \<Rightarrow> error + sensor_row" where
  "validate_sensor_near_bay_trigger K bays op NEW =
     (if insert_or_update_of [''geom'', ''bay_id''] op
      then validate_sensor_near_bay K bays NEW else Inr NEW)"

definition validate_violation_inside_bay_trigger ::
  "kernel \<Rightarrow> bay_row list \<Rightarrow> tg_op \<Rightarrow> violation_row \<Rightarrow> error + violation_row" where
  "validate_violation_inside_bay_trigger K bays op NEW =
     (if insert_or_update_of [''geom'', ''bay_id''] op
      then validate_violation_inside_bay K bays NEW else Inr NEW)"

section \<open>Writes to the zone and bay tables\<close>

record db =
  parking_zones :: "zone_row list"
  parking_bays :: "bay_row list"

text \<open>
  The BEFORE row triggers of \<open>parking_bays\<close> that can reject a row, in the order in
  which they fire (by trigger name): the geometry type trigger, then the zone trigger.
\<close>

definition parking_bays_before_row ::
  "kernel \<Rightarrow> zone_row list \<Rightarrow> tg_op \<Rightarrow> bay_row \<Rightarrow> error + bay_row" where
  "parking_bays_before_row K zones op NEW =
     and_then (validate_bay_geometry_type_trigger K op NEW)
       (validate_bay_within_zone_trigger K zones op)"

text \<open>\<open>INSERT INTO parking_bays\<close>: the triggers, then the primary key.\<close>

definition insert_parking_bay :: "kernel \<Rightarrow> db \<Rightarrow> bay_row \<Rightarrow> error + db" where
  "insert_parking_bay K d row =
     and_then (parking_bays_before_row K (parking_zones d) INSERT row)
       (\<lambda>NEW. if \<exists>pb \<in> set (parking_bays d). pb_bay_id pb = pb_bay_id NEW
              then Inl unique_violation
              else Inr (d\<lparr>parking_bays := parking_bays d @ [NEW]\<rparr>))"

text \<open>
  An \<open>UPDATE ... WHERE\<close> rewrites every row that satisfies the condition; an error
  on one row aborts the statement.
\<close>

fun update_rows :: "('r \<Rightarrow> bool) \<Rightarrow> ('r \<Rightarrow> error + 'r) \<Rightarrow> 'r list \<Rightarrow> error + 'r list" where
  "update_rows P f [] = Inr []"
| "update_rows P f (r # rs) =
     (if P r
      then and_then (f r) (\<lambda>r'. and_then (update_rows P f rs) (\<lambda>rs'. Inr (r' # rs')))
      else and_then (update_rows P f rs) (\<lambda>rs'. Inr (r # rs')))"

text \<open>
  \<open>UPDATE parking_bays SET ... WHERE bay_id = k\<close>, where the SET list may assign the
  geometry, the zone reference, both or neither (an update of other columns only).
\<close>

record bay_assignment =
  set_geom :: "geometry option"
  set_zone_id :: "int option option"

definition bay_set_list :: "bay_assignment \<Rightarrow> string list" where
  "bay_set_list a =
     (if set_geom a \<noteq> None then [''geom''] else []) @
     (if set_zone_id a \<noteq> None then [''zone_id''] else [])"

definition assign_bay :: "bay_assignment \<Rightarrow> bay_row \<Rightarrow> bay_row" where
  "assign_bay a OLD =
     OLD\<lparr>pb_geom := (case set_geom a of None \<Rightarrow> pb_geom OLD | Some g \<Rightarrow> g),
         pb_zone_id := (case set_zone_id a of None \<Rightarrow> pb_zone_id OLD | Some z \<Rightarrow> z)\<rparr>"

definition update_parking_bay :: "kernel \<Rightarrow> db \<Rightarrow> int \<Rightarrow> bay_assignment \<Rightarrow> error + db" where
  "update_parking_bay K d k a =
     and_then
       (update_rows (\<lambda>pb. pb_bay_id pb = k)
          (\<lambda>OLD. parking_bays_before_row K (parking_zones d) (UPDATE (bay_set_list a))
                    (assign_bay a OLD))
          (parking_bays d))
       (\<lambda>bays'. Inr (d\<lparr>parking_bays := bays'\<rparr>))"

text \<open>
  \<open>UPDATE parking_zones SET geom = g WHERE zone_id = k\<close>. The only trigger of
  \<open>parking_zones\<close> that can reject the row is the geometry type trigger; no trigger
  of that table reads or writes \<open>parking_bays\<close>.
\<close>

definition update_parking_zone_geom :: "kernel \<Rightarrow> db \<Rightarrow> int \<Rightarrow> geometry \<Rightarrow> error + db" where
  "update_parking_zone_geom K d k g =
     and_then
       (update_rows (\<lambda>pz. pz_zone_id pz = k)
          (\<lambda>OLD. validate_zone_geometry_type_trigger K (UPDATE [''geom''])
                    (OLD\<lparr>pz_geom := g\<rparr>))
          (parking_zones d))
       (\<lambda>zones'. Inr (d\<lparr>parking_zones := zones'\<rparr>))"

text \<open>
  The condition of the zone trigger as a predicate on a bay polygon and a zone polygon,
  and the property that every stored bay meets it against its zone.
\<close>

definition bay_fits_zone :: "kernel \<Rightarrow> geometry \<Rightarrow> geometry \<Rightarrow> bool" where
  "bay_fits_zone K bay_geom zone_geom =
     (ST_Within K bay_geom zone_geom
      \<or> (ST_Area K bay_geom \<noteq> 0
         \<and> ST_Area K (ST_Intersection K bay_geom zone_geom) / ST_Area K bay_geom \<ge> 0.9))"

definition row_fits_zone :: "kernel \<Rightarrow> zone_row list \<Rightarrow> bay_row \<Rightarrow> bool" where
  "row_fits_zone K zones pb =
     (case select_zone zones (pb_zone_id pb) of
        None \<Rightarrow> False
      | Some pz \<Rightarrow> bay_fits_zone K (pb_geom pb) (pz_geom pz))"

definition bays_fit_zones :: "kernel \<Rightarrow> db \<Rightarrow> bool" where
  "bays_fit_zones K d = (\<forall>pb \<in> set (parking_bays d). row_fits_zone K (parking_zones d) pb)"

section \<open>Bay status driven by parking sessions\<close>

text \<open>
  \<open>UPDATE parking_bays SET status = s, last_status_update = CURRENT_TIMESTAMP
  WHERE bay_id = k\<close>. The statement assigns neither the geometry nor the zone reference,
  so no validation trigger of \<open>parking_bays\<close> fires.
\<close>

definition update_status_where_bay_id ::
  "bay_status \<Rightarrow> nat \<Rightarrow> int option \<Rightarrow> bay_row list \<Rightarrow> bay_row list" where
  "update_status_where_bay_id s current_timestamp k bays =
     map (\<lambda>pb. if Some (pb_bay_id pb) = k
               then pb\<lparr>pb_status := Some s, pb_last_status_update := current_timestamp\<rparr>
               else pb) bays"

text \<open>
  \<open>update_bay_status_on_session\<close>, an AFTER row trigger of \<open>parking_sessions\<close>.
  \<open>OLD\<close> is read only when the operation is an update.
\<close>

fun update_bay_status_on_session ::
  "nat \<Rightarrow> tg_op \<Rightarrow> session_row \<Rightarrow> session_row \<Rightarrow> bay_row list \<Rightarrow> bay_row list" where
  "update_bay_status_on_session current_timestamp INSERT OLD NEW bays =
     (if ps_status NEW = Some Active
      then update_status_where_bay_id Occupied current_timestamp (ps_bay_id NEW) bays
      else bays)"
| "update_bay_status_on_session current_timestamp (UPDATE set_list) OLD NEW bays =
     (if (ps_status NEW = Some Completed \<or> ps_status NEW = Some Cancelled)
         \<and> ps_status OLD = Some Active
      then update_status_where_bay_id Available current_timestamp (ps_bay_id NEW) bays
      else if ps_status NEW = Some Overstay \<and> ps_status OLD = Some Active
      then update_status_where_bay_id Occupied current_timestamp (ps_bay_id NEW) bays
      else bays)"

definition update_bay_status_trigger ::
  "nat \<Rightarrow> tg_op \<Rightarrow> session_row \<Rightarrow> session_row \<Rightarrow> bay_row list \<Rightarrow> bay_row list" where
  "update_bay_status_trigger current_timestamp op OLD NEW bays =
     (if insert_or_update_of [''status''] op
      then update_bay_status_on_session current_timestamp op OLD NEW bays
      else bays)"

section \<open>Spatial queries\<close>

text \<open>
  The GeoJSON feature of a result row: the bay's geometry and the property values.
\<close>

record bay_feature =
  f_geometry :: geometry
  f_bay_id :: int
  f_bay_number :: string
  f_zone_id :: "int option"
  f_zone_name :: string
  f_status :: "bay_status option"
  f_is_disabled_only :: "bool option"
  f_is_electric :: "bool option"

record near_bay_row =
  nb_bay_id :: int
  nb_bay_number :: string
  nb_zone_id :: "int option"
  nb_zone_name :: string
  nb_status :: "bay_status option"
  nb_is_disabled_only :: "bool option"
  nb_is_electric :: "bool option"
  nb_distance_meters :: real
  nb_geojson :: bay_feature

definition near_bay_select :: "kernel \<Rightarrow> geometry \<Rightarrow> bay_row \<times> zone_row \<Rightarrow> near_bay_row" where
  "near_bay_select K center = (\<lambda>(pb, pz).
     \<lparr>nb_bay_id = pb_bay_id pb,
      nb_bay_number = pb_bay_number pb,
      nb_zone_id = pb_zone_id pb,
      nb_zone_name = pz_name pz,
      nb_status = pb_status pb,
      nb_is_disabled_only = pb_is_disabled_only pb,
      nb_is_electric = pb_is_electric pb,
      nb_distance_meters = ST_Distance_geog K (pb_geom pb) center,
      nb_geojson =
        \<lparr>f_geometry = pb_geom pb,
         f_bay_id = pb_bay_id pb,
         f_bay_number = pb_bay_number pb,
         f_zone_id = pb_zone_id pb,
         f_zone_name = pz_name pz,
         f_status = pb_status pb,
         f_is_disabled_only = pb_is_disabled_only pb,
         f_is_electric = pb_is_electric pb\<rparr>\<rparr>)"

text \<open>
  \<open>find_available_bays_near\<close>: the join of bays and zones on the zone reference, the
  WHERE clause, the select list, and the ordering by the distance column. A comparison
  with a NULL status or a NULL active flag is not true, so such rows are left out. Rows
  at equal distance are kept in the order of the join, one of the orders that
  \<open>ORDER BY\<close> allows.
\<close>

definition find_available_bays_near ::
  "kernel \<Rightarrow> db \<Rightarrow> real \<Rightarrow> real \<Rightarrow> real \<Rightarrow> near_bay_row list" where
  "find_available_bays_near K d lat lng radius_meters =
     (let center = ST_SetSRID (ST_MakePoint lng lat) 4326;
          joined = filter (\<lambda>(pb, pz). pb_zone_id pb = Some (pz_zone_id pz))
                     (List.product (parking_bays d) (parking_zones d));
          selected = filter (\<lambda>(pb, pz). pb_status pb = Some Available
                                \<and> pz_is_active pz = Some True
                                \<and> ST_DWithin_geog K (pb_geom pb) center radius_meters)
                       joined
      in sort_key nb_distance_meters (map (near_bay_select K center) selected))"

text \<open>
  \<open>ROUND(x, n)\<close> on \<open>NUMERIC\<close> rounds to \<open>n\<close> decimal places, halves away from zero.
  \<open>NUMERIC\<close> values are modelled as rationals and their division as exact (the
  database keeps at least sixteen significant digits of a quotient).
\<close>

definition ROUND :: "rat \<Rightarrow> nat \<Rightarrow> rat" where
  "ROUND x n = sgn x * of_int \<lfloor>\<bar>x\<bar> * 10 ^ n + 1 / 2\<rfloor> / 10 ^ n"

definition count_filter :: "('r \<Rightarrow> bool) \<Rightarrow> 'r list \<Rightarrow> int" where
  "count_filter P rows = int (length (filter P rows))"

record occupancy_row =
  total_bays :: int
  available_bays :: int
  occupied_bays :: int
  reserved_bays :: int
  closed_bays :: int
  occupancy_percent :: rat

text \<open>
  \<open>calculate_zone_occupancy\<close>. An aggregate query without GROUP BY returns exactly one
  row. A comparison of a NULL status is not true, neither with \<open>=\<close> nor with \<open>!=\<close>.
\<close>

definition calculate_zone_occupancy :: "bay_row list \<Rightarrow> int option \<Rightarrow> occupancy_row" where
  "calculate_zone_occupancy bays p_zone_id =
     (let rows = filter (\<lambda>pb. pb_zone_id pb \<noteq> None \<and> pb_zone_id pb = p_zone_id) bays;
          not_closed = count_filter (\<lambda>pb. pb_status pb \<noteq> None \<and> pb_status pb \<noteq> Some Closed) rows
      in \<lparr>total_bays = count_filter (\<lambda>pb. True) rows,
          available_bays = count_filter (\<lambda>pb. pb_status pb = Some Available) rows,
          occupied_bays = count_filter (\<lambda>pb. pb_status pb = Some Occupied) rows,
          reserved_bays = count_filter (\<lambda>pb. pb_status pb = Some Reserved) rows,
          closed_bays = count_filter (\<lambda>pb. pb_status pb = Some Closed) rows,
          occupancy_percent =
            (if not_closed > 0
             then ROUND ((of_int (count_filter (\<lambda>pb. pb_status pb = Some Occupied) rows)
                          / of_int not_closed) * 100) 2
             else 0)\<rparr>)"

text \<open>
  The member that the normalisers are meant to select: the first part whose measure no
  other part exceeds.
\<close>

definition largest_member :: "(geometry \<Rightarrow> real) \<Rightarrow> geometry list \<Rightarrow> geometry option" where
  "largest_member measure_of gs = find (\<lambda>g. \<forall>h \<in> set gs. measure_of h \<le> measure_of g) gs"

section \<open>A planar instance of the spatial library\<close>

text \<open>
  To run the definitions on concrete rows, the library is instantiated with a simple
  planar reading in which every geometry stands for its bounding box and coordinates are
  lengths: area and intersection are those of the boxes, containment is box inclusion,
  and the distance is the sum of the horizontal and the vertical gap.
\<close>

fun coords :: "shape \<Rightarrow> coord list" where
  "coords (Point c) = [c]"
| "coords (LineString cs) = cs"
| "coords (Polygon rs) = concat rs"
| "coords (MultiPoint cs) = cs"
| "coords (MultiLineString ls) = concat ls"
| "coords (MultiPolygon ps) = concat (map concat ps)"
| "coords (GeometryCollection gs) = concat (map coords gs)"

type_synonym box = "real \<times> real \<times> real \<times> real"

fun box_of :: "coord list \<Rightarrow> box option" where
  "box_of [] = None"
| "box_of ((x, y) # cs) =
     (case box_of cs of
        None \<Rightarrow> Some (x, y, x, y)
      | Some (x0, y0, x1, y1) \<Rightarrow> Some (min x x0, min y y0, max x x1, max y y1))"

definition bbox :: "geometry \<Rightarrow> box option" where
  "bbox g = box_of (coords (shape g))"

fun box_area :: "box option \<Rightarrow> real" where
  "box_area None = 0"
| "box_area (Some (x0, y0, x1, y1)) = (x1 - x0) * (y1 - y0)"

fun box_length :: "box option \<Rightarrow> real" where
  "box_length None = 0"
| "box_length (Some (x0, y0, x1, y1)) = (x1 - x0) + (y1 - y0)"

fun box_inside :: "box option \<Rightarrow> box option \<Rightarrow> bool" where
  "box_inside (Some (a0, b0, a1, b1)) (Some (x0, y0, x1, y1)) =
     (x0 \<le> a0 \<and> y0 \<le> b0 \<and> a1 \<le> x1 \<and> b1 \<le> y1)"
| "box_inside p q = False"

fun box_polygon :: "int \<Rightarrow> box option \<Rightarrow> geometry" where
  "box_polygon s None = \<lparr>srid = s, shape = Polygon []\<rparr>"
| "box_polygon s (Some (x0, y0, x1, y1)) =
     \<lparr>srid = s, shape = Polygon [[(x0, y0), (x1, y0), (x1, y1), (x0, y1), (x0, y0)]]\<rparr>"

fun box_inter :: "box option \<Rightarrow> box option \<Rightarrow> box option" where
  "box_inter (Some (a0, b0, a1, b1)) (Some (x0, y0, x1, y1)) =
     (if max a0 x0 \<le> min a1 x1 \<and> max b0 y0 \<le> min b1 y1
      then Some (max a0 x0, max b0 y0, min a1 x1, min b1 y1) else None)"
| "box_inter p q = None"

fun box_distance :: "box option \<Rightarrow> box option \<Rightarrow> real" where
  "box_distance (Some (a0, b0, a1, b1)) (Some (x0, y0, x1, y1)) =
     max 0 (max (x0 - a1) (a0 - x1)) + max 0 (max (y0 - b1) (b0 - y1))"
| "box_distance p q = 0"

fun box_grow :: "real \<Rightarrow> box option \<Rightarrow> box option" where
  "box_grow r None = None"
| "box_grow r (Some (x0, y0, x1, y1)) = Some (x0 - r, y0 - r, x1 + r, y1 + r)"

fun box_centre :: "int \<Rightarrow> box option \<Rightarrow> geometry" where
  "box_centre s None = \<lparr>srid = s, shape = GeometryCollection []\<rparr>"
| "box_centre s (Some (x0, y0, x1, y1)) =
     \<lparr>srid = s, shape = Point ((x0 + x1) / 2, (y0 + y1) / 2)\<rparr>"

definition box_kernel :: kernel where
  "box_kernel =
     \<lparr>ST_Within = (\<lambda>a b. box_inside (bbox a) (bbox b)),
      ST_Contains = (\<lambda>a b. box_inside (bbox b) (bbox a)),
      ST_IsValid = (\<lambda>g. True),
      ST_Area = (\<lambda>g. box_area (bbox g)),
      ST_Intersection = (\<lambda>a b. box_polygon (srid a) (box_inter (bbox a) (bbox b))),
      ST_Centroid = (\<lambda>g. box_centre (srid g) (bbox g)),
      ST_Distance_geog = (\<lambda>a b. box_distance (bbox a) (bbox b)),
      ST_Area_geog = (\<lambda>g. box_area (bbox g)),
      ST_Length_geog = (\<lambda>g. box_length (bbox g)),
      ST_Buffer_geog = (\<lambda>g r. box_polygon (srid g) (box_grow r (bbox g)))\<rparr>"

section \<open>Example rows\<close>

text \<open>
  A rectangle and a point in the stored reference system, and a zone of 50 by 30 with one
  bay of 5 by 2 inside it. They are the concrete inputs on which the theorems below are
  instantiated.
\<close>

definition rect :: "real \<Rightarrow> real \<Rightarrow> real \<Rightarrow> real \<Rightarrow> geometry" where
  "rect x0 y0 x1 y1 =
     \<lparr>srid = 4326, shape = Polygon [[(x0, y0), (x1, y0), (x1, y1), (x0, y1), (x0, y0)]]\<rparr>"

definition point_at :: "real \<Rightarrow> real \<Rightarrow> geometry" where
  "point_at x y = \<lparr>srid = 4326, shape = Point (x, y)\<rparr>"

definition example_zone :: zone_row where
  "example_zone =
     \<lparr>pz_zone_id = 1, pz_name = ''Lot A'', pz_is_active = Some True, pz_geom = rect 0 0 50 30\<rparr>"

definition example_bay :: bay_row where
  "example_bay =
     \<lparr>pb_bay_id = 1, pb_zone_id = Some 1, pb_bay_number = ''A-001'',
      pb_is_disabled_only = Some False, pb_is_electric = Some False,
      pb_status = Some Available, pb_last_status_update = 0, pb_geom = rect 10 10 15 12\<rparr>"

definition example_sensor :: sensor_row where
  "example_sensor = \<lparr>s_sensor_id = 1, s_bay_id = Some 1, s_geom = point_at 12 11\<rparr>"

definition example_violation :: violation_row where
  "example_violation = \<lparr>v_violation_id = 1, v_bay_id = Some 1, v_geom = point_at 12 11\<rparr>"

text \<open>
  A database with an active and an inactive zone and five bays, the bays of one zone with
  their statuses, and a parking session.
\<close>

definition example_db :: db where
  "example_db =
     \<lparr>parking_zones =
        [example_zone,
         \<lparr>pz_zone_id = 2, pz_name = ''Lot B'', pz_is_active = Some False,
          pz_geom = rect 0 40 50 70\<rparr>],
      parking_bays =
        [example_bay\<lparr>pb_bay_id := 1, pb_geom := rect 30 10 35 12\<rparr>,
         example_bay\<lparr>pb_bay_id := 2, pb_geom := rect 10 10 15 12\<rparr>,
         example_bay\<lparr>pb_bay_id := 3, pb_geom := rect 20 10 25 12, pb_status := Some Occupied\<rparr>,
         example_bay\<lparr>pb_bay_id := 4, pb_geom := rect 45 25 50 27\<rparr>,
         example_bay\<lparr>pb_bay_id := 5, pb_zone_id := Some 2, pb_geom := rect 10 40 15 42\<rparr>]\<rparr>"

definition example_zone_bays :: "bay_row list" where
  "example_zone_bays =
     [example_bay\<lparr>pb_bay_id := 1, pb_status := Some Occupied\<rparr>,
      example_bay\<lparr>pb_bay_id := 2, pb_status := Some Available\<rparr>,
      example_bay\<lparr>pb_bay_id := 3, pb_status := Some Available\<rparr>,
      example_bay\<lparr>pb_bay_id := 4, pb_status := Some Closed\<rparr>,
      example_bay\<lparr>pb_bay_id := 5, pb_zone_id := Some 2, pb_status := Some Occupied\<rparr>]"

definition example_session :: session_row where
  "example_session = \<lparr>ps_session_id = 1, ps_bay_id = Some 1, ps_status = Some Active\<rparr>"

text \<open>
  The effect of setting the status of the bays with a given identifier: those rows get the
  status and the timestamp, every other row and column is as before.
\<close>

definition bay_status_set :: "bay_status \<Rightarrow> nat \<Rightarrow> int option \<Rightarrow> bay_row list \<Rightarrow> bay_row list \<Rightarrow> bool" where
  "bay_status_set s current_timestamp k bays bays' =
     list_all2 (\<lambda>pb pb'.
        if Some (pb_bay_id pb) = k
        then pb' = pb\<lparr>pb_status := Some s, pb_last_status_update := current_timestamp\<rparr>
        else pb' = pb) bays bays'"

text \<open>
  The relation between a row and its image under \<open>update_rows\<close>: the result of the
  assignment when the condition selects the row, the row itself otherwise.
\<close>

definition row_updated :: "('r \<Rightarrow> bool) \<Rightarrow> ('r \<Rightarrow> error + 'r) \<Rightarrow> 'r \<Rightarrow> 'r \<Rightarrow> bool" where
  "row_updated P f r r' = (if P r then f r = Inr r' else r' = r)"


section \<open>Evaluation on concrete rows\<close>

text \<open>
  The defining equations that are unfolded when a theorem is instantiated on the example
  rows and the planar library.
\<close>

lemmas box_eval = box_kernel_def bbox_def GeometryType_def ST_SRID_def Let_def largest_member_def
lemmas example_eval = rect_def point_at_def example_zone_def example_bay_def
  example_sensor_def example_violation_def
  example_db_def example_zone_bays_def example_session_def

lemmas trigger_eval =
  validate_bay_within_zone_def validate_bay_geometry_type_def
  validate_bay_geometry_type_trigger_def validate_bay_within_zone_trigger_def
  validate_zone_geometry_type_def validate_zone_geometry_type_trigger_def
  parking_bays_before_row_def insert_parking_bay_def update_parking_zone_geom_def
  select_zone_def select_bay_def and_then_def row_fits_zone_def bay_fits_zone_def
  bays_fit_zones_def

section \<open>Properties of the normalisers\<close>

text \<open>
  C6. Each normaliser returns its argument unchanged when the argument is already of the
  canonical kind: a polygon for \<open>normalize_to_polygon\<close>, a line string for
  \<open>normalize_to_linestring\<close>, a point for \<open>normalize_to_point\<close>.
\<close>

theorem normalizers_identity_on_canonical_kind:
  "normalize_to_polygon K (Some \<lparr>srid = s, shape = Polygon rs\<rparr>)
     = Some \<lparr>srid = s, shape = Polygon rs\<rparr>
   \<and> normalize_to_linestring K (Some \<lparr>srid = s, shape = LineString cs\<rparr>)
     = Some \<lparr>srid = s, shape = LineString cs\<rparr>
   \<and> normalize_to_point K (Some \<lparr>srid = s, shape = Point c\<rparr>)
     = Some \<lparr>srid = s, shape = Point c\<rparr>"
  by (simp add: normalize_to_polygon_def normalize_to_linestring_def normalize_to_point_def
      GeometryType_def)

text \<open>
  The loop reads the parts in their order, and it returns the first part of largest
  measure if that measure exceeds the bound it starts from, and its initial result
  otherwise.
\<close>

lemma map_filter_index:
  "List.map_filter (\<lambda>i. if 1 \<le> i \<and> i \<le> length xs then Some (f (xs ! (i - 1))) else None)
     [1..<Suc (length xs)] = map f xs"
proof -
  let ?g = "\<lambda>i. if 1 \<le> i \<and> i \<le> length xs then Some (f (xs ! (i - 1))) else None"
  have keep: "filter (\<lambda>i. ?g i \<noteq> None) [1..<Suc (length xs)] = [1..<Suc (length xs)]"
    by (rule filter_True) auto
  have "List.map_filter ?g [1..<Suc (length xs)] = map (the \<circ> ?g) [1..<Suc (length xs)]"
    unfolding List.map_filter_def keep ..
  also have "\<dots> = map f xs"
    by (rule nth_equalityI) (auto simp del: upt_Suc)
  finally show ?thesis .
qed

lemma geometries_1_to_n_parts:
  "geometries_1_to_n g = map (\<lambda>s. \<lparr>srid = srid g, shape = s\<rparr>) (parts (shape g))"
  unfolding geometries_1_to_n_def ST_GeometryN_def ST_NumGeometries_def
  by (rule map_filter_index)

lemma polygon_loop_largest:
  "polygon_loop K gs m r =
     (if \<exists>g \<in> set gs. ST_Area_geog K g > m then largest_member (ST_Area_geog K) gs else r)"
proof (induction gs arbitrary: m r)
  case Nil
  show ?case by simp
next
  case (Cons g gs)
  let ?a = "ST_Area_geog K"
  show ?case
  proof (cases "?a g > m")
    case True
    show ?thesis
    proof (cases "\<exists>h \<in> set gs. ?a h > ?a g")
      case True
      then obtain h where h: "h \<in> set gs" "?a h > ?a g" by blast
      have "find (\<lambda>x. \<forall>k \<in> set (g # gs). ?a k \<le> ?a x) gs
            = find (\<lambda>x. \<forall>k \<in> set gs. ?a k \<le> ?a x) gs"
        by (rule find_cong) (use h in \<open>auto intro: less_imp_le order_trans\<close>)
      with \<open>?a g > m\<close> True h Cons.IH[of "?a g" "Some g"] show ?thesis
        by (auto simp: largest_member_def Let_def not_le)
    next
      case False
      with \<open>?a g > m\<close> Cons.IH[of "?a g" "Some g"] show ?thesis
        by (auto simp: largest_member_def Let_def not_less)
    qed
  next
    case False
    show ?thesis
    proof (cases "\<exists>h \<in> set gs. ?a h > m")
      case True
      then obtain h where h: "h \<in> set gs" "?a h > m" by blast
      have "find (\<lambda>x. \<forall>k \<in> set (g # gs). ?a k \<le> ?a x) gs
            = find (\<lambda>x. \<forall>k \<in> set gs. ?a k \<le> ?a x) gs"
        by (rule find_cong) (use h False in \<open>force+\<close>)
      moreover have "\<not> (\<forall>k \<in> set (g # gs). ?a k \<le> ?a g)"
        using h False by force
      ultimately show ?thesis
        using False True Cons.IH[of m r] by (auto simp add: largest_member_def Let_def)
    next
      case False
      with \<open>\<not> ?a g > m\<close> Cons.IH[of m r] show ?thesis
        by (auto simp: largest_member_def Let_def)
    qed
  qed
qed

lemma collection_polygon_loop_filter:
  "collection_polygon_loop K gs m r =
     polygon_loop K (filter (\<lambda>g. GeometryType g = ''POLYGON'') gs) m r"
  by (induction gs arbitrary: m r) (simp_all add: Let_def)

lemma largest_member_Some:
  assumes "largest_member f gs = Some r"
  shows "r \<in> set gs" and "\<forall>h \<in> set gs. f h \<le> f r"
  using assms unfolding largest_member_def
  by (auto simp: find_Some_iff)

lemma largest_member_exists:
  fixes f :: "geometry \<Rightarrow> real"
  assumes "gs \<noteq> []"
  shows "\<exists>r. largest_member f gs = Some r"
proof -
  have "finite (f ` set gs)" "f ` set gs \<noteq> {}" using assms by auto
  then obtain g where g: "g \<in> set gs" "f g = Max (f ` set gs)"
    by (metis (mono_tags, lifting) Max_in imageE)
  then have "\<forall>h \<in> set gs. f h \<le> f g" by simp
  with g(1) have "find (\<lambda>g. \<forall>h \<in> set gs. f h \<le> f g) gs \<noteq> None"
    by (auto simp: find_None_iff)
  then show ?thesis by (auto simp: largest_member_def)
qed

text \<open>
  C4. \<open>normalize_to_polygon\<close> returns a polygon unchanged. For a multi-polygon, and for
  a geometry collection restricted to its polygon members, it returns the first member of
  largest geodesic area when some member has positive area, and NULL when none has (in
  particular when there is no polygon member). For a point it returns the buffer of
  radius 2.5 around the point. For a line string, a multi-point, a multi-line-string and
  for NULL it returns NULL.
\<close>

theorem normalize_to_polygon_by_kind:
  "normalize_to_polygon K None = None
   \<and> normalize_to_polygon K (Some g) =
       (case shape g of
          Polygon rs \<Rightarrow> Some g
        | MultiPolygon ps \<Rightarrow>
            (let members = map (\<lambda>p. \<lparr>srid = srid g, shape = Polygon p\<rparr>) ps
             in if \<exists>m \<in> set members. ST_Area_geog K m > 0
                then largest_member (ST_Area_geog K) members else None)
        | GeometryCollection gs \<Rightarrow>
            (let members = map (\<lambda>s. \<lparr>srid = srid g, shape = s\<rparr>)
                             (filter (\<lambda>s. shape_type s = ''POLYGON'') gs)
             in if \<exists>m \<in> set members. ST_Area_geog K m > 0
                then largest_member (ST_Area_geog K) members else None)
        | Point c \<Rightarrow> Some (ST_Buffer_geog K g 2.5)
        | LineString cs \<Rightarrow> None
        | MultiPoint cs \<Rightarrow> None
        | MultiLineString ls \<Rightarrow> None)"
proof -
  have multi: "normalize_to_polygon K (Some g) =
        (let members = map (\<lambda>p. \<lparr>srid = srid g, shape = Polygon p\<rparr>) ps
         in if \<exists>m \<in> set members. ST_Area_geog K m > 0
            then largest_member (ST_Area_geog K) members else None)"
    if "shape g = MultiPolygon ps" for ps
    using that
    by (simp add: normalize_to_polygon_def GeometryType_def geometries_1_to_n_parts
        polygon_loop_largest Let_def comp_def)
  have filt: "filter (\<lambda>g. GeometryType g = ''POLYGON'') (map (\<lambda>s. \<lparr>srid = k, shape = s\<rparr>) gs)
        = map (\<lambda>s. \<lparr>srid = k, shape = s\<rparr>) (filter (\<lambda>s. shape_type s = ''POLYGON'') gs)"
    for k gs
    by (simp add: filter_map comp_def GeometryType_def)
  have coll: "normalize_to_polygon K (Some g) =
        (let members = map (\<lambda>s. \<lparr>srid = srid g, shape = s\<rparr>)
                         (filter (\<lambda>s. shape_type s = ''POLYGON'') gs)
         in if \<exists>m \<in> set members. ST_Area_geog K m > 0
            then largest_member (ST_Area_geog K) members else None)"
    if "shape g = GeometryCollection gs" for gs
  proof -
    have "normalize_to_polygon K (Some g) =
            collection_polygon_loop K (map (\<lambda>s. \<lparr>srid = srid g, shape = s\<rparr>) gs) 0 None"
      using that
      by (simp add: normalize_to_polygon_def GeometryType_def geometries_1_to_n_parts)
    also have "\<dots> = polygon_loop K (map (\<lambda>s. \<lparr>srid = srid g, shape = s\<rparr>)
                         (filter (\<lambda>s. shape_type s = ''POLYGON'') gs)) 0 None"
      by (simp only: collection_polygon_loop_filter filt)
    finally show ?thesis
      by (simp only: polygon_loop_largest Let_def)
  qed
  have "normalize_to_polygon K (Some g) =
       (case shape g of
          Polygon rs \<Rightarrow> Some g
        | MultiPolygon ps \<Rightarrow>
            (let members = map (\<lambda>p. \<lparr>srid = srid g, shape = Polygon p\<rparr>) ps
             in if \<exists>m \<in> set members. ST_Area_geog K m > 0
                then largest_member (ST_Area_geog K) members else None)
        | GeometryCollection gs \<Rightarrow>
            (let members = map (\<lambda>s. \<lparr>srid = srid g, shape = s\<rparr>)
                             (filter (\<lambda>s. shape_type s = ''POLYGON'') gs)
             in if \<exists>m \<in> set members. ST_Area_geog K m > 0
                then largest_member (ST_Area_geog K) members else None)
        | Point c \<Rightarrow> Some (ST_Buffer_geog K g 2.5)
        | LineString cs \<Rightarrow> None
        | MultiPoint cs \<Rightarrow> None
        | MultiLineString ls \<Rightarrow> None)"
  proof (cases "shape g")
    case (MultiPolygon ps)
    then show ?thesis by (simp only: multi shape.case)
  next
    case (GeometryCollection gs)
    then show ?thesis by (simp only: coll shape.case)
  qed (simp_all add: normalize_to_polygon_def GeometryType_def)
  then show ?thesis
    by (simp add: normalize_to_polygon_def)
qed

text \<open>
  The theorem at a multi-polygon with parts of area 10 and 30, where the part of area 30
  is returned, at a collection that holds the same two polygons among a point and a line
  string, at a polygon, at a point and at a line string.
\<close>

theorem normalize_to_polygon_by_kind_witness:
  "ST_Area_geog box_kernel (rect 0 0 6 5) = 30
   \<and> ST_Area_geog box_kernel (rect 10 0 15 2) = 10
   \<and> normalize_to_polygon box_kernel
        (Some \<lparr>srid = 4326,
               shape = MultiPolygon [[[(10,0),(15,0),(15,2),(10,2),(10,0)]],
                                     [[(0,0),(6,0),(6,5),(0,5),(0,0)]]]\<rparr>)
       = Some (rect 0 0 6 5)
   \<and> normalize_to_polygon box_kernel
        (Some \<lparr>srid = 4326,
               shape = GeometryCollection
                 [Point (1,1), shape (rect 10 0 15 2), LineString [(0,0),(9,9)],
                  shape (rect 0 0 6 5)]\<rparr>)
       = Some (rect 0 0 6 5)
   \<and> normalize_to_polygon box_kernel (Some (rect 0 0 6 5)) = Some (rect 0 0 6 5)
   \<and> normalize_to_polygon box_kernel (Some (point_at 3 4))
       = Some (ST_Buffer_geog box_kernel (point_at 3 4) 2.5)
   \<and> normalize_to_polygon box_kernel (Some \<lparr>srid = 4326, shape = LineString [(0,0),(9,9)]\<rparr>)
       = None"
  using
    normalize_to_polygon_by_kind
      [where K = box_kernel and g = "\<lparr>srid = 4326,
            shape = MultiPolygon [[[(10,0),(15,0),(15,2),(10,2),(10,0)]],
                                  [[(0,0),(6,0),(6,5),(0,5),(0,0)]]]\<rparr>"]
    normalize_to_polygon_by_kind
      [where K = box_kernel and g = "\<lparr>srid = 4326,
            shape = GeometryCollection
              [Point (1,1), shape (rect 10 0 15 2), LineString [(0,0),(9,9)],
               shape (rect 0 0 6 5)]\<rparr>"]
    normalize_to_polygon_by_kind [where K = box_kernel and g = "rect 0 0 6 5"]
    normalize_to_polygon_by_kind [where K = box_kernel and g = "point_at 3 4"]
    normalize_to_polygon_by_kind [where K = box_kernel and g = "\<lparr>srid = 4326, shape = LineString [(0,0),(9,9)]\<rparr>"]
  by (simp add: box_eval example_eval)

text \<open>
  A multi-polygon whose only part has area zero (its ring is collinear): that part is the
  member of largest area, and the function returns NULL. It also returns NULL for a
  geometry collection of a point and a line string, which has no polygon member.
\<close>

theorem normalize_to_polygon_zero_area_counterexample:
  "largest_member (ST_Area_geog box_kernel)
     (geometries_1_to_n \<lparr>srid = 4326, shape = MultiPolygon [[[(0,0),(1,0),(2,0),(0,0)]]]\<rparr>)
     = Some \<lparr>srid = 4326, shape = Polygon [[(0,0),(1,0),(2,0),(0,0)]]\<rparr>
   \<and> normalize_to_polygon box_kernel
        (Some \<lparr>srid = 4326, shape = MultiPolygon [[[(0,0),(1,0),(2,0),(0,0)]]]\<rparr>) = None
   \<and> normalize_to_polygon box_kernel
        (Some \<lparr>srid = 4326,
               shape = GeometryCollection [Point (0,0), LineString [(0,0),(1,1)]]\<rparr>) = None"
  by (simp add: box_eval normalize_to_polygon_def geometries_1_to_n_parts)

section \<open>Bays and their zones\<close>

text \<open>
  An accepted row is returned unchanged and meets the zone condition; an accepted
  statement changes the bay table row by row.
\<close>

lemma and_then_Inr_iff [simp]:
  "and_then r f = Inr y \<longleftrightarrow> (\<exists>x. r = Inr x \<and> f x = Inr y)"
  by (cases r) (auto simp: and_then_def)

lemma validate_bay_within_zone_Inr_iff:
  "validate_bay_within_zone K zones NEW = Inr r \<longleftrightarrow> r = NEW \<and> row_fits_zone K zones NEW"
  by (auto simp: validate_bay_within_zone_def row_fits_zone_def bay_fits_zone_def Let_def
      not_less split: option.splits)

lemma validate_bay_geometry_type_Inr:
  "validate_bay_geometry_type K NEW = Inr r \<Longrightarrow> r = NEW"
  by (auto simp: validate_bay_geometry_type_def split: if_splits)

lemma parking_bays_before_row_Inr:
  assumes "parking_bays_before_row K zones op NEW = Inr r"
  shows "r = NEW"
    and "insert_or_update_of [''geom'', ''zone_id''] op \<Longrightarrow> row_fits_zone K zones r"
  using assms
  by (auto simp: parking_bays_before_row_def validate_bay_geometry_type_trigger_def
      validate_bay_within_zone_trigger_def validate_bay_within_zone_Inr_iff
      dest: validate_bay_geometry_type_Inr split: if_splits)

lemma update_rows_Inr:
  "update_rows P f rs = Inr rs' \<Longrightarrow> list_all2 (row_updated P f) rs rs'"
  by (induction rs arbitrary: rs') (auto simp: row_updated_def split: if_splits)

lemma list_all2_set_right:
  assumes "list_all2 R xs ys" and "y \<in> set ys"
  obtains x where "x \<in> set xs" and "R x y"
proof -
  from assms(2) obtain i where i: "i < length ys" "ys ! i = y"
    by (auto simp: in_set_conv_nth)
  with assms(1) have "xs ! i \<in> set xs" "R (xs ! i) y"
    by (auto simp: list_all2_conv_all_nth)
  then show thesis by (rule that)
qed

lemma assign_bay_nothing:
  "set_geom a = None \<Longrightarrow> set_zone_id a = None \<Longrightarrow> assign_bay a OLD = OLD"
  by (simp add: assign_bay_def)

lemma bay_set_list_fires:
  "insert_or_update_of [''geom'', ''zone_id''] (UPDATE (bay_set_list a))
     \<longleftrightarrow> set_geom a \<noteq> None \<or> set_zone_id a \<noteq> None"
  by (auto simp: bay_set_list_def)

lemma insert_parking_bay_Inr:
  assumes "insert_parking_bay K d NEW = Inr d'"
  shows "parking_zones d' = parking_zones d"
    and "parking_bays d' = parking_bays d @ [NEW]"
    and "row_fits_zone K (parking_zones d) NEW"
proof -
  from assms obtain r where
    run: "parking_bays_before_row K (parking_zones d) INSERT NEW = Inr r"
    and d': "d' = d\<lparr>parking_bays := parking_bays d @ [r]\<rparr>"
    by (auto simp: insert_parking_bay_def split: if_splits)
  from run have r: "r = NEW" by (rule parking_bays_before_row_Inr(1))
  show "parking_zones d' = parking_zones d" by (simp add: d')
  show "parking_bays d' = parking_bays d @ [NEW]" by (simp add: d' r)
  from parking_bays_before_row_Inr(2)[OF run] r
  show "row_fits_zone K (parking_zones d) NEW" by simp
qed

lemma update_parking_bay_Inr:
  assumes "update_parking_bay K d k a = Inr d'"
    and "pb' \<in> set (parking_bays d')"
  obtains "parking_zones d' = parking_zones d" and "pb' \<in> set (parking_bays d)"
      and "pb_bay_id pb' \<noteq> k \<or> (set_geom a = None \<and> set_zone_id a = None)"
  | pb where "parking_zones d' = parking_zones d" and "pb \<in> set (parking_bays d)"
      and "pb_bay_id pb = k" and "pb' = assign_bay a pb"
      and "set_geom a \<noteq> None \<or> set_zone_id a \<noteq> None"
      and "row_fits_zone K (parking_zones d) pb'"
proof -
  from assms(1) obtain bays' where
    upd: "update_rows (\<lambda>pb. pb_bay_id pb = k)
            (\<lambda>OLD. parking_bays_before_row K (parking_zones d) (UPDATE (bay_set_list a))
                      (assign_bay a OLD)) (parking_bays d) = Inr bays'"
    and d': "d' = d\<lparr>parking_bays := bays'\<rparr>"
    by (auto simp: update_parking_bay_def)
  have zones: "parking_zones d' = parking_zones d" by (simp add: d')
  from assms(2) have "pb' \<in> set bays'" by (simp add: d')
  with update_rows_Inr[OF upd] obtain pb where pb: "pb \<in> set (parking_bays d)"
    and rel: "row_updated (\<lambda>pb. pb_bay_id pb = k)
            (\<lambda>OLD. parking_bays_before_row K (parking_zones d) (UPDATE (bay_set_list a))
                      (assign_bay a OLD)) pb pb'"
    by (rule list_all2_set_right)
  show thesis
  proof (cases "pb_bay_id pb = k")
    case False
    with rel have "pb' = pb" by (simp add: row_updated_def)
    with pb False zones show thesis by (intro that(1)) auto
  next
    case True
    with rel have run: "parking_bays_before_row K (parking_zones d) (UPDATE (bay_set_list a))
        (assign_bay a pb) = Inr pb'"
      by (simp add: row_updated_def)
    then have eq: "pb' = assign_bay a pb" by (rule parking_bays_before_row_Inr(1))
    show thesis
    proof (cases "set_geom a = None \<and> set_zone_id a = None")
      case True
      with eq have "pb' = pb" by (simp add: assign_bay_nothing)
      with pb True zones show thesis by (intro that(1)) auto
    next
      case False
      then have "set_geom a \<noteq> None \<or> set_zone_id a \<noteq> None" by simp
      then have "insert_or_update_of [''geom'', ''zone_id''] (UPDATE (bay_set_list a))"
        by (simp only: bay_set_list_fires)
      with run have "row_fits_zone K (parking_zones d) pb'"
        by (rule parking_bays_before_row_Inr(2))
      with pb \<open>pb_bay_id pb = k\<close> eq False zones show thesis by (intro that(2)) auto
    qed
  qed
qed

lemma update_parking_bay_preserves:
  assumes "update_parking_bay K d k a = Inr d'" and "bays_fit_zones K d"
  shows "bays_fit_zones K d'"
  unfolding bays_fit_zones_def
proof
  fix pb' assume "pb' \<in> set (parking_bays d')"
  with assms(1) show "row_fits_zone K (parking_zones d') pb'"
    by (rule update_parking_bay_Inr) (use assms(2) in \<open>auto simp: bays_fit_zones_def\<close>)
qed

lemma insert_parking_bay_preserves:
  assumes "insert_parking_bay K d NEW = Inr d'" and "bays_fit_zones K d"
  shows "bays_fit_zones K d'"
  using insert_parking_bay_Inr[OF assms(1)] assms(2)
  by (auto simp: bays_fit_zones_def)

text \<open>
  C1. The zone check of a bay row accepts exactly when the referenced zone exists and the
  bay polygon is within the zone polygon or the area of their intersection is at least
  0.90 of the area of the bay; it returns the row unchanged, and it rejects a row whose
  zone does not exist. The trigger runs the check on every insert and on every update
  whose SET list names the geometry or the zone reference. Consequently a bay row stored
  by an accepted insert, or rewritten by an accepted update of its geometry or zone
  reference, meets the condition against the zone polygon stored at that time, and
  inserts and updates of bays keep the condition true of all stored bays.
\<close>

theorem bay_within_zone_enforced_on_bay_writes:
  "((\<exists>r. validate_bay_within_zone K zones NEW = Inr r) \<longleftrightarrow>
      (\<exists>pz. select_zone zones (pb_zone_id NEW) = Some pz
         \<and> (ST_Within K (pb_geom NEW) (pz_geom pz)
            \<or> (ST_Area K (pb_geom NEW) \<noteq> 0
               \<and> ST_Area K (ST_Intersection K (pb_geom NEW) (pz_geom pz))
                   / ST_Area K (pb_geom NEW) \<ge> 0.9))))
   \<and> (\<forall>r. validate_bay_within_zone K zones NEW = Inr r \<longrightarrow> r = NEW)
   \<and> (select_zone zones (pb_zone_id NEW) = None \<longrightarrow>
        validate_bay_within_zone K zones NEW = Inl (zone_does_not_exist (pb_zone_id NEW)))
   \<and> (insert_or_update_of [''geom'', ''zone_id''] op \<longrightarrow>
        validate_bay_within_zone_trigger K zones op NEW = validate_bay_within_zone K zones NEW)
   \<and> (\<forall>d'. insert_parking_bay K d NEW = Inr d' \<longrightarrow>
          NEW \<in> set (parking_bays d') \<and> row_fits_zone K (parking_zones d') NEW
          \<and> (bays_fit_zones K d \<longrightarrow> bays_fit_zones K d'))
   \<and> (\<forall>d'. update_parking_bay K d k a = Inr d' \<longrightarrow>
          (bays_fit_zones K d \<longrightarrow> bays_fit_zones K d')
          \<and> (set_geom a \<noteq> None \<or> set_zone_id a \<noteq> None \<longrightarrow>
               (\<forall>pb' \<in> set (parking_bays d'). pb_bay_id pb' = k \<longrightarrow>
                  row_fits_zone K (parking_zones d') pb')))"
proof -
  have decide: "(\<exists>r. validate_bay_within_zone K zones NEW = Inr r) \<longleftrightarrow>
      (\<exists>pz. select_zone zones (pb_zone_id NEW) = Some pz
         \<and> (ST_Within K (pb_geom NEW) (pz_geom pz)
            \<or> (ST_Area K (pb_geom NEW) \<noteq> 0
               \<and> ST_Area K (ST_Intersection K (pb_geom NEW) (pz_geom pz))
                   / ST_Area K (pb_geom NEW) \<ge> 0.9)))"
    by (simp add: validate_bay_within_zone_Inr_iff row_fits_zone_def bay_fits_zone_def
        split: option.splits)
  have same: "\<forall>r. validate_bay_within_zone K zones NEW = Inr r \<longrightarrow> r = NEW"
    by (simp add: validate_bay_within_zone_Inr_iff)
  have missing: "select_zone zones (pb_zone_id NEW) = None \<longrightarrow>
        validate_bay_within_zone K zones NEW = Inl (zone_does_not_exist (pb_zone_id NEW))"
    by (simp add: validate_bay_within_zone_def)
  have fires: "insert_or_update_of [''geom'', ''zone_id''] op \<longrightarrow>
        validate_bay_within_zone_trigger K zones op NEW = validate_bay_within_zone K zones NEW"
    by (simp add: validate_bay_within_zone_trigger_def)
  have ins: "NEW \<in> set (parking_bays d') \<and> row_fits_zone K (parking_zones d') NEW
          \<and> (bays_fit_zones K d \<longrightarrow> bays_fit_zones K d')"
    if "insert_parking_bay K d NEW = Inr d'" for d'
    using insert_parking_bay_Inr[OF that] insert_parking_bay_preserves[OF that] by simp
  have upd: "(bays_fit_zones K d \<longrightarrow> bays_fit_zones K d')
          \<and> (set_geom a \<noteq> None \<or> set_zone_id a \<noteq> None \<longrightarrow>
               (\<forall>pb' \<in> set (parking_bays d'). pb_bay_id pb' = k \<longrightarrow>
                  row_fits_zone K (parking_zones d') pb'))"
    if run: "update_parking_bay K d k a = Inr d'" for d'
  proof (intro conjI impI ballI)
    assume "bays_fit_zones K d"
    with run show "bays_fit_zones K d'" by (rule update_parking_bay_preserves)
  next
    fix pb'
    assume "set_geom a \<noteq> None \<or> set_zone_id a \<noteq> None"
      and "pb' \<in> set (parking_bays d')" and "pb_bay_id pb' = k"
    with run show "row_fits_zone K (parking_zones d') pb'"
      by (elim update_parking_bay_Inr) auto
  qed
  from decide same missing fires ins upd show ?thesis by blast
qed

text \<open>
  The theorem on the example rows: the bay inside the zone is accepted and stored, a bay
  that overlaps the zone by 0.8 of its area is rejected, and so is a bay that refers to a
  zone that does not exist; the stored bay can be moved inside the zone, but not to a
  place where only 0.4 of it overlaps the zone.
\<close>

theorem bay_within_zone_enforced_on_bay_writes_witness:
  "validate_bay_within_zone box_kernel [example_zone] example_bay = Inr example_bay
   \<and> ST_Area box_kernel (ST_Intersection box_kernel (rect 42 10 52 12) (pz_geom example_zone))
        / ST_Area box_kernel (rect 42 10 52 12) = 0.8
   \<and> validate_bay_within_zone box_kernel [example_zone] (example_bay\<lparr>pb_geom := rect 42 10 52 12\<rparr>)
       = Inl bay_overlaps_zone_by_less_than_90_percent
   \<and> validate_bay_within_zone box_kernel [example_zone] (example_bay\<lparr>pb_zone_id := Some 2\<rparr>)
       = Inl (zone_does_not_exist (Some 2))
   \<and> insert_parking_bay box_kernel \<lparr>parking_zones = [example_zone], parking_bays = []\<rparr> example_bay
       = Inr \<lparr>parking_zones = [example_zone], parking_bays = [example_bay]\<rparr>
   \<and> bays_fit_zones box_kernel \<lparr>parking_zones = [example_zone], parking_bays = [example_bay]\<rparr>
   \<and> update_parking_bay box_kernel
        \<lparr>parking_zones = [example_zone], parking_bays = [example_bay]\<rparr> 1
        \<lparr>set_geom = Some (rect 20 20 25 22), set_zone_id = None\<rparr>
       = Inr \<lparr>parking_zones = [example_zone],
              parking_bays = [example_bay\<lparr>pb_geom := rect 20 20 25 22\<rparr>]\<rparr>
   \<and> update_parking_bay box_kernel
        \<lparr>parking_zones = [example_zone], parking_bays = [example_bay]\<rparr> 1
        \<lparr>set_geom = Some (rect 48 20 53 22), set_zone_id = None\<rparr>
       = Inl bay_overlaps_zone_by_less_than_90_percent"
  using
    bay_within_zone_enforced_on_bay_writes
      [of box_kernel "[example_zone]" example_bay INSERT
          "\<lparr>parking_zones = [example_zone], parking_bays = []\<rparr>" 1
          "\<lparr>set_geom = None, set_zone_id = None\<rparr>"]
    bay_within_zone_enforced_on_bay_writes
      [of box_kernel "[example_zone]" example_bay "UPDATE [''geom'']"
          "\<lparr>parking_zones = [example_zone], parking_bays = [example_bay]\<rparr>" 1
          "\<lparr>set_geom = Some (rect 20 20 25 22), set_zone_id = None\<rparr>"]
    bay_within_zone_enforced_on_bay_writes
      [of box_kernel "[example_zone]" "example_bay\<lparr>pb_zone_id := Some 2\<rparr>" INSERT
          "\<lparr>parking_zones = [example_zone], parking_bays = []\<rparr>" 1
          "\<lparr>set_geom = None, set_zone_id = None\<rparr>"]
  by (simp add: trigger_eval update_parking_bay_def bay_set_list_def assign_bay_def
      box_eval example_eval)

text \<open>
  The condition is not an invariant of the stored rows under all writes: an update of the
  zone's polygon is accepted without looking at the bays of the zone. Here a bay is
  inserted inside its zone, the zone polygon is then moved away, and the stored bay is
  neither within the zone nor overlapping it.
\<close>

theorem zone_edit_leaves_bay_outside_counterexample:
  "insert_parking_bay box_kernel \<lparr>parking_zones = [example_zone], parking_bays = []\<rparr> example_bay
     = Inr \<lparr>parking_zones = [example_zone], parking_bays = [example_bay]\<rparr>
   \<and> update_parking_zone_geom box_kernel
        \<lparr>parking_zones = [example_zone], parking_bays = [example_bay]\<rparr> 1 (rect 100 100 150 130)
     = Inr \<lparr>parking_zones = [example_zone\<lparr>pz_geom := rect 100 100 150 130\<rparr>],
            parking_bays = [example_bay]\<rparr>
   \<and> \<not> ST_Within box_kernel (pb_geom example_bay) (rect 100 100 150 130)
   \<and> ST_Area box_kernel (ST_Intersection box_kernel (pb_geom example_bay) (rect 100 100 150 130))
       / ST_Area box_kernel (pb_geom example_bay) = 0
   \<and> \<not> bays_fit_zones box_kernel
         \<lparr>parking_zones = [example_zone\<lparr>pz_geom := rect 100 100 150 130\<rparr>],
          parking_bays = [example_bay]\<rparr>"
  by (simp add: trigger_eval box_eval example_eval)

section \<open>Sensors and violations\<close>

text \<open>
  C2. When the sensor row has no bay reference the proximity check returns the row at once.
  Otherwise it accepts exactly when the referenced bay exists and the sensor point is
  within the bay polygon or at a geodesic distance of at most 3.0 metres from it, and it
  returns the row unchanged. The trigger runs the check on every insert and on every
  update whose SET list names the geometry or the bay reference.
\<close>

theorem sensor_near_bay_check:
  "(s_bay_id NEW = None \<longrightarrow> validate_sensor_near_bay K bays NEW = Inr NEW)
   \<and> (s_bay_id NEW \<noteq> None \<longrightarrow>
        ((\<exists>r. validate_sensor_near_bay K bays NEW = Inr r) \<longleftrightarrow>
           (\<exists>pb. select_bay bays (s_bay_id NEW) = Some pb
              \<and> (ST_Within K (s_geom NEW) (pb_geom pb)
                 \<or> ST_Distance_geog K (s_geom NEW) (pb_geom pb) \<le> 3.0))))
   \<and> (\<forall>r. validate_sensor_near_bay K bays NEW = Inr r \<longrightarrow> r = NEW)
   \<and> (insert_or_update_of [''geom'', ''bay_id''] op \<longrightarrow>
        validate_sensor_near_bay_trigger K bays op NEW = validate_sensor_near_bay K bays NEW)"
  by (auto simp: validate_sensor_near_bay_def validate_sensor_near_bay_trigger_def
      threshold_meters_def Let_def not_less split: option.splits if_splits)

text \<open>
  The theorem on the example bay: a sensor without bay reference, a sensor inside the bay,
  a sensor 2 away from it, and a sensor 4 away from it, which is rejected.
\<close>

theorem sensor_near_bay_check_witness:
  "validate_sensor_near_bay box_kernel [example_bay] (example_sensor\<lparr>s_bay_id := None\<rparr>)
     = Inr (example_sensor\<lparr>s_bay_id := None\<rparr>)
   \<and> validate_sensor_near_bay box_kernel [example_bay] example_sensor = Inr example_sensor
   \<and> ST_Distance_geog box_kernel (point_at 17 11) (pb_geom example_bay) = 2
   \<and> validate_sensor_near_bay box_kernel [example_bay] (example_sensor\<lparr>s_geom := point_at 17 11\<rparr>)
       = Inr (example_sensor\<lparr>s_geom := point_at 17 11\<rparr>)
   \<and> \<not> ST_Within box_kernel (point_at 19 11) (pb_geom example_bay)
   \<and> ST_Distance_geog box_kernel (point_at 19 11) (pb_geom example_bay) = 4
   \<and> validate_sensor_near_bay box_kernel [example_bay] (example_sensor\<lparr>s_geom := point_at 19 11\<rparr>)
       = Inl (sensor_must_be_within_meters 3 4)
   \<and> validate_sensor_near_bay_trigger box_kernel [example_bay] (UPDATE [''geom''])
        (example_sensor\<lparr>s_geom := point_at 19 11\<rparr>)
       = Inl (sensor_must_be_within_meters 3 4)"
  using
    sensor_near_bay_check [of "example_sensor\<lparr>s_bay_id := None\<rparr>" box_kernel "[example_bay]" INSERT]
    sensor_near_bay_check [of example_sensor box_kernel "[example_bay]" INSERT]
    sensor_near_bay_check [of "example_sensor\<lparr>s_geom := point_at 19 11\<rparr>" box_kernel
      "[example_bay]" "UPDATE [''geom'']"]
  by (simp add: validate_sensor_near_bay_def validate_sensor_near_bay_trigger_def
      threshold_meters_def select_bay_def box_eval example_eval)

text \<open>
  C3. The check of a violation row accepts exactly when the referenced bay exists and the
  violation point is contained in the bay polygon or within a geodesic distance of 2.0
  metres of it, and it returns the row unchanged. A row without a bay reference, or with
  a reference to a bay that does not exist, is rejected. The trigger runs the check on
  every insert and on every update whose SET list names the geometry or the bay reference.
\<close>

theorem violation_inside_bay_check:
  "((\<exists>r. validate_violation_inside_bay K bays NEW = Inr r) \<longleftrightarrow>
      (\<exists>pb. select_bay bays (v_bay_id NEW) = Some pb
         \<and> (ST_Contains K (pb_geom pb) (v_geom NEW)
            \<or> ST_Distance_geog K (v_geom NEW) (pb_geom pb) \<le> 2.0)))
   \<and> (\<forall>r. validate_violation_inside_bay K bays NEW = Inr r \<longrightarrow> r = NEW)
   \<and> (v_bay_id NEW = None \<longrightarrow>
        validate_violation_inside_bay K bays NEW = Inl (bay_does_not_exist None))
   \<and> (select_bay bays (v_bay_id NEW) = None \<longrightarrow>
        validate_violation_inside_bay K bays NEW = Inl (bay_does_not_exist (v_bay_id NEW)))
   \<and> (insert_or_update_of [''geom'', ''bay_id''] op \<longrightarrow>
        validate_violation_inside_bay_trigger K bays op NEW
          = validate_violation_inside_bay K bays NEW)"
  by (auto simp: validate_violation_inside_bay_def validate_violation_inside_bay_trigger_def
      ST_DWithin_geog_def select_bay_def Let_def split: option.splits if_splits)

text \<open>
  The theorem on the example bay: a violation inside the bay, one 2 away from it, one 3
  away from it, one without bay reference and one that refers to a missing bay.
\<close>

theorem violation_inside_bay_check_witness:
  "validate_violation_inside_bay box_kernel [example_bay] example_violation = Inr example_violation
   \<and> ST_Distance_geog box_kernel (point_at 17 11) (pb_geom example_bay) = 2
   \<and> validate_violation_inside_bay box_kernel [example_bay]
        (example_violation\<lparr>v_geom := point_at 17 11\<rparr>)
       = Inr (example_violation\<lparr>v_geom := point_at 17 11\<rparr>)
   \<and> validate_violation_inside_bay box_kernel [example_bay]
        (example_violation\<lparr>v_geom := point_at 18 11\<rparr>)
       = Inl violation_point_must_be_inside_bay
   \<and> validate_violation_inside_bay box_kernel [example_bay]
        (example_violation\<lparr>v_bay_id := None\<rparr>) = Inl (bay_does_not_exist None)
   \<and> validate_violation_inside_bay_trigger box_kernel [example_bay] INSERT
        (example_violation\<lparr>v_bay_id := Some 9\<rparr>) = Inl (bay_does_not_exist (Some 9))"
  using
    violation_inside_bay_check [of box_kernel "[example_bay]" example_violation INSERT]
    violation_inside_bay_check [of box_kernel "[example_bay]"
      "example_violation\<lparr>v_bay_id := None\<rparr>" INSERT]
    violation_inside_bay_check [of box_kernel "[example_bay]"
      "example_violation\<lparr>v_bay_id := Some 9\<rparr>" INSERT]
  by (simp add: validate_violation_inside_bay_def validate_violation_inside_bay_trigger_def
      ST_DWithin_geog_def select_bay_def box_eval example_eval)

section \<open>The radius search\<close>

text \<open>
  The rows returned are the images of the pairs of a bay and a zone that pass the join
  condition and the WHERE clause.
\<close>

lemma set_find_available_bays_near:
  "set (find_available_bays_near K d lat lng radius_meters) =
     near_bay_select K \<lparr>srid = 4326, shape = Point (lng, lat)\<rparr> `
       {(pb, pz). pb \<in> set (parking_bays d) \<and> pz \<in> set (parking_zones d)
          \<and> pb_zone_id pb = Some (pz_zone_id pz)
          \<and> pb_status pb = Some Available
          \<and> pz_is_active pz = Some True
          \<and> ST_Distance_geog K (pb_geom pb) \<lparr>srid = 4326, shape = Point (lng, lat)\<rparr>
               \<le> radius_meters}"
  by (auto simp: find_available_bays_near_def ST_SetSRID_def ST_MakePoint_def
      ST_DWithin_geog_def Let_def)

text \<open>
  C5. Every row that \<open>find_available_bays_near\<close> returns comes from a stored bay
  whose status is available, carries the geodesic distance between that bay and the
  centre point, and that distance is at most the requested radius; the returned list is
  sorted by ascending distance.
\<close>

theorem find_available_bays_near_sound_and_sorted:
  "(\<forall>r \<in> set (find_available_bays_near K d lat lng radius_meters).
      nb_status r = Some Available
      \<and> nb_distance_meters r \<le> radius_meters
      \<and> (\<exists>pb \<in> set (parking_bays d).
            pb_status pb = Some Available
            \<and> nb_bay_id r = pb_bay_id pb
            \<and> f_geometry (nb_geojson r) = pb_geom pb
            \<and> nb_distance_meters r
                = ST_Distance_geog K (pb_geom pb) \<lparr>srid = 4326, shape = Point (lng, lat)\<rparr>))
   \<and> sorted (map nb_distance_meters (find_available_bays_near K d lat lng radius_meters))"
proof -
  have "sorted (map nb_distance_meters (find_available_bays_near K d lat lng radius_meters))"
    by (simp add: find_available_bays_near_def Let_def)
  moreover have "\<forall>r \<in> set (find_available_bays_near K d lat lng radius_meters).
      nb_status r = Some Available
      \<and> nb_distance_meters r \<le> radius_meters
      \<and> (\<exists>pb \<in> set (parking_bays d).
            pb_status pb = Some Available
            \<and> nb_bay_id r = pb_bay_id pb
            \<and> f_geometry (nb_geojson r) = pb_geom pb
            \<and> nb_distance_meters r
                = ST_Distance_geog K (pb_geom pb) \<lparr>srid = 4326, shape = Point (lng, lat)\<rparr>)"
    unfolding set_find_available_bays_near
    by (auto simp: near_bay_select_def)
  ultimately show ?thesis by blast
qed

text \<open>
  The theorem on the example database, centre (0, 11) and radius 40: of the five bays,
  bay 3 is occupied, bay 4 is 59 away and bay 5 belongs to the inactive zone; bays 2 and
  1 are returned, at distances 10 and 30.
\<close>

theorem find_available_bays_near_sound_and_sorted_witness:
  "map (\<lambda>r. (nb_bay_id r, nb_status r, nb_distance_meters r))
     (find_available_bays_near box_kernel example_db 11 0 40)
     = [(2, Some Available, 10), (1, Some Available, 30)]
   \<and> sorted (map nb_distance_meters (find_available_bays_near box_kernel example_db 11 0 40))"
  using find_available_bays_near_sound_and_sorted [of box_kernel example_db 11 0 40]
  by (simp add: find_available_bays_near_def near_bay_select_def ST_SetSRID_def
      ST_MakePoint_def ST_DWithin_geog_def box_eval example_eval)

text \<open>
  C10. Every row that \<open>find_available_bays_near\<close> returns is built from a bay and a zone
  row with the bay's zone reference whose active flag is true. So when no zone row with
  identifier \<open>z\<close> is active, no returned row belongs to zone \<open>z\<close>, whatever the status
  of its bays and their distance from the centre point.
\<close>

theorem inactive_zone_bays_never_returned:
  "(\<forall>r \<in> set (find_available_bays_near K d lat lng radius_meters).
      \<exists>pb \<in> set (parking_bays d). \<exists>pz \<in> set (parking_zones d).
        r = near_bay_select K \<lparr>srid = 4326, shape = Point (lng, lat)\<rparr> (pb, pz)
        \<and> pb_zone_id pb = Some (pz_zone_id pz) \<and> pz_is_active pz = Some True)
   \<and> ((\<forall>pz \<in> set (parking_zones d). pz_zone_id pz = z \<longrightarrow> pz_is_active pz \<noteq> Some True)
        \<longrightarrow> (\<forall>r \<in> set (find_available_bays_near K d lat lng radius_meters).
               nb_zone_id r \<noteq> Some z))"
proof (intro conjI)
  show "\<forall>r \<in> set (find_available_bays_near K d lat lng radius_meters).
      \<exists>pb \<in> set (parking_bays d). \<exists>pz \<in> set (parking_zones d).
        r = near_bay_select K \<lparr>srid = 4326, shape = Point (lng, lat)\<rparr> (pb, pz)
        \<and> pb_zone_id pb = Some (pz_zone_id pz) \<and> pz_is_active pz = Some True"
    unfolding set_find_available_bays_near by blast
  show "(\<forall>pz \<in> set (parking_zones d). pz_zone_id pz = z \<longrightarrow> pz_is_active pz \<noteq> Some True)
        \<longrightarrow> (\<forall>r \<in> set (find_available_bays_near K d lat lng radius_meters).
               nb_zone_id r \<noteq> Some z)"
    unfolding set_find_available_bays_near
    by (auto simp: near_bay_select_def)
qed

text \<open>
  The theorem on the example database: bay 5 is available and 39 away from the centre,
  within the radius of 40, but its zone 2 is not active, and no returned row is of zone 2.
\<close>

theorem inactive_zone_bays_never_returned_witness:
  "pb_status (parking_bays example_db ! 4) = Some Available
   \<and> pb_zone_id (parking_bays example_db ! 4) = Some 2
   \<and> ST_Distance_geog box_kernel (pb_geom (parking_bays example_db ! 4)) (point_at 0 11) = 39
   \<and> pz_is_active (parking_zones example_db ! 1) = Some False
   \<and> \<not> (\<exists>r \<in> set (find_available_bays_near box_kernel example_db 11 0 40).
           nb_zone_id r = Some 2)"
  using inactive_zone_bays_never_returned [of box_kernel example_db 11 0 40 2]
  by (simp add: find_available_bays_near_def near_bay_select_def ST_SetSRID_def
      ST_MakePoint_def ST_DWithin_geog_def box_eval example_eval)

section \<open>Zone occupancy\<close>

text \<open>
  The counts add up, and rounding to two decimals moves a non-negative value by at most
  0.005.
\<close>

lemma count_filter_Cons:
  "count_filter P (x # xs) = (if P x then 1 else 0) + count_filter P xs"
  by (simp add: count_filter_def)

lemma count_not_closed:
  "count_filter (\<lambda>pb. pb_status pb \<noteq> None \<and> pb_status pb \<noteq> Some Closed) rows =
     count_filter (\<lambda>pb. pb_status pb = Some Available) rows
     + count_filter (\<lambda>pb. pb_status pb = Some Occupied) rows
     + count_filter (\<lambda>pb. pb_status pb = Some Reserved) rows"
proof (induction rows)
  case Nil
  show ?case by (simp add: count_filter_def)
next
  case (Cons pb rows)
  show ?case
  proof (cases "pb_status pb")
    case None
    with Cons show ?thesis by (simp add: count_filter_Cons)
  next
    case (Some s)
    with Cons show ?thesis by (cases s) (simp_all add: count_filter_Cons)
  qed
qed

lemma count_total:
  "count_filter (\<lambda>pb. True) rows =
     count_filter (\<lambda>pb. pb_status pb = Some Available) rows
     + count_filter (\<lambda>pb. pb_status pb = Some Occupied) rows
     + count_filter (\<lambda>pb. pb_status pb = Some Reserved) rows
     + count_filter (\<lambda>pb. pb_status pb = Some Closed) rows
     + count_filter (\<lambda>pb. pb_status pb = None) rows"
proof (induction rows)
  case Nil
  show ?case by (simp add: count_filter_def)
next
  case (Cons pb rows)
  show ?case
  proof (cases "pb_status pb")
    case None
    with Cons show ?thesis by (simp add: count_filter_Cons)
  next
    case (Some s)
    with Cons show ?thesis by (cases s) (simp_all add: count_filter_Cons)
  qed
qed

lemma ROUND_close:
  assumes "0 \<le> x"
  shows "\<bar>ROUND x 2 - x\<bar> \<le> 1 / 200"
proof (cases "x = 0")
  case True
  then show ?thesis by (simp add: ROUND_def)
next
  case False
  with assms have pos: "0 < x" by simp
  define n :: rat where "n = of_int \<lfloor>x * 100 + 1 / 2\<rfloor>"
  have lo: "n \<le> x * 100 + 1 / 2"
    unfolding n_def by (rule of_int_floor_le)
  have hi: "x * 100 + 1 / 2 < n + 1"
    unfolding n_def using floor_correct[of "x * 100 + 1 / 2"] by simp
  have R: "ROUND x 2 = n / 100"
    using pos by (simp add: ROUND_def n_def)
  have "n / 100 - x \<le> 1 / 200" "- (n / 100 - x) \<le> 1 / 200"
    using lo hi by (simp_all add: field_simps)
  then have "\<bar>n / 100 - x\<bar> \<le> 1 / 200"
    by (rule abs_leI)
  then show ?thesis by (simp only: R)
qed

lemma floor_numeral_divide:
  "\<lfloor>(numeral a :: rat) / numeral b\<rfloor> = numeral a div numeral b"
  using floor_divide_of_int_eq[of "numeral a" "numeral b", where ?'a = rat] by simp

text \<open>
  C7. For the bays of zone \<open>z\<close>, \<open>calculate_zone_occupancy\<close> returns the number of
  bays, the number in each of the statuses available, occupied, reserved and closed, and
  a percentage. The denominator of the percentage is the number of bays whose status is
  set and is not closed, which is the sum of the available, occupied and reserved counts.
  With a positive denominator the percentage is the occupied count divided by the
  denominator, times 100, rounded to two decimal places, so it is within 0.005 of the
  exact quotient; with a zero denominator it is 0.
\<close>

theorem zone_occupancy_counts_and_rounded_percent:
  "(let rows = filter (\<lambda>pb. pb_zone_id pb = Some z) bays;
        r = calculate_zone_occupancy bays (Some z);
        open_bays = available_bays r + occupied_bays r + reserved_bays r
    in total_bays r = int (length rows)
       \<and> available_bays r = int (length (filter (\<lambda>pb. pb_status pb = Some Available) rows))
       \<and> occupied_bays r = int (length (filter (\<lambda>pb. pb_status pb = Some Occupied) rows))
       \<and> reserved_bays r = int (length (filter (\<lambda>pb. pb_status pb = Some Reserved) rows))
       \<and> closed_bays r = int (length (filter (\<lambda>pb. pb_status pb = Some Closed) rows))
       \<and> open_bays = int (length (filter (\<lambda>pb. pb_status pb \<noteq> None
                                              \<and> pb_status pb \<noteq> Some Closed) rows))
       \<and> total_bays r = open_bays + closed_bays r
                          + int (length (filter (\<lambda>pb. pb_status pb = None) rows))
       \<and> occupancy_percent r =
            (if open_bays > 0
             then ROUND (of_int (occupied_bays r) / of_int open_bays * 100) 2 else 0)
       \<and> (open_bays > 0 \<longrightarrow>
            \<bar>occupancy_percent r - of_int (occupied_bays r) / of_int open_bays * 100\<bar>
              \<le> 1 / 200))"
proof -
  define rows where "rows = filter (\<lambda>pb. pb_zone_id pb = Some z) bays"
  define r where "r = calculate_zone_occupancy bays (Some z)"
  define open_bays where "open_bays = available_bays r + occupied_bays r + reserved_bays r"
  have sel: "filter (\<lambda>pb. pb_zone_id pb \<noteq> None \<and> pb_zone_id pb = Some z) bays = rows"
    unfolding rows_def by (rule filter_cong) auto
  have cols:
    "total_bays r = count_filter (\<lambda>pb. True) rows"
    "available_bays r = count_filter (\<lambda>pb. pb_status pb = Some Available) rows"
    "occupied_bays r = count_filter (\<lambda>pb. pb_status pb = Some Occupied) rows"
    "reserved_bays r = count_filter (\<lambda>pb. pb_status pb = Some Reserved) rows"
    "closed_bays r = count_filter (\<lambda>pb. pb_status pb = Some Closed) rows"
    by (simp_all add: r_def calculate_zone_occupancy_def sel Let_def del: not_None_eq)
  have open_eq: "open_bays =
      count_filter (\<lambda>pb. pb_status pb \<noteq> None \<and> pb_status pb \<noteq> Some Closed) rows"
    by (simp add: open_bays_def cols count_not_closed del: not_None_eq)
  have total: "total_bays r = open_bays + closed_bays r
      + count_filter (\<lambda>pb. pb_status pb = None) rows"
    by (simp add: open_bays_def cols count_total[of rows])
  have pct: "occupancy_percent r =
      (if open_bays > 0
       then ROUND (of_int (occupied_bays r) / of_int open_bays * 100) 2 else 0)"
    unfolding open_eq cols(3)
    by (simp add: r_def calculate_zone_occupancy_def sel Let_def del: not_None_eq)
  have close: "\<bar>occupancy_percent r - of_int (occupied_bays r) / of_int open_bays * 100\<bar>
      \<le> 1 / 200" if "open_bays > 0"
  proof -
    have "0 \<le> occupied_bays r" by (simp add: cols count_filter_def)
    with that have "(0::rat) \<le> of_int (occupied_bays r) / of_int open_bays * 100"
      by simp
    then show ?thesis
      using that by (simp only: pct if_True) (rule ROUND_close)
  qed
  from cols open_eq total pct close show ?thesis
    unfolding Let_def rows_def[symmetric] r_def[symmetric] open_bays_def[symmetric]
    by (simp add: count_filter_def del: not_None_eq)
qed

text \<open>
  The theorem on a zone with one occupied, two available and one closed bay (and a bay of
  another zone): the percentage is 33.33.
\<close>

theorem zone_occupancy_counts_and_rounded_percent_witness:
  "calculate_zone_occupancy example_zone_bays (Some 1) =
     \<lparr>total_bays = 4, available_bays = 2, occupied_bays = 1, reserved_bays = 0,
      closed_bays = 1, occupancy_percent = 3333 / 100\<rparr>
   \<and> \<bar>(3333 / 100 :: rat) - 1 / 3 * 100\<bar> \<le> 1 / 200"
  using zone_occupancy_counts_and_rounded_percent [of 1 example_zone_bays]
  by (simp add: calculate_zone_occupancy_def count_filter_def ROUND_def floor_numeral_divide
      example_eval Let_def)

text \<open>
  On the same zone the returned percentage differs from the quotient of the occupied
  count by the number of bays that are not closed, times 100: it is 33.33, not 100/3.
\<close>

theorem zone_occupancy_percent_counterexample:
  "occupied_bays (calculate_zone_occupancy example_zone_bays (Some 1)) = 1
   \<and> total_bays (calculate_zone_occupancy example_zone_bays (Some 1))
       - closed_bays (calculate_zone_occupancy example_zone_bays (Some 1)) = 3
   \<and> occupancy_percent (calculate_zone_occupancy example_zone_bays (Some 1)) = 3333 / 100
   \<and> occupancy_percent (calculate_zone_occupancy example_zone_bays (Some 1))
       \<noteq> of_int (occupied_bays (calculate_zone_occupancy example_zone_bays (Some 1)))
          / of_int (total_bays (calculate_zone_occupancy example_zone_bays (Some 1))
                    - closed_bays (calculate_zone_occupancy example_zone_bays (Some 1))) * 100"
  by (simp add: calculate_zone_occupancy_def count_filter_def ROUND_def floor_numeral_divide
      example_eval Let_def)

section \<open>Sessions and bay status\<close>

lemma update_status_where_bay_id_sets:
  "bay_status_set s ts k bays (update_status_where_bay_id s ts k bays)"
  by (simp add: bay_status_set_def update_status_where_bay_id_def list_all2_map2 list_all2_same)

text \<open>
  C9. The session trigger drives the bay status as follows. The insert of a session with
  status active sets the status of the session's bay to occupied. An update that names
  the status column and takes the session from active to completed or cancelled sets it
  to available; from active to overstay, to occupied. Every other insert or update of a
  session leaves the bay table as it is.
\<close>

theorem session_changes_drive_bay_status:
  "(ps_status NEW = Some Active \<longrightarrow>
      bay_status_set Occupied ts (ps_bay_id NEW) bays
        (update_bay_status_trigger ts INSERT OLD NEW bays))
   \<and> (ps_status NEW \<noteq> Some Active \<longrightarrow>
        update_bay_status_trigger ts INSERT OLD NEW bays = bays)
   \<and> (''status'' \<in> set set_list \<and> ps_status OLD = Some Active
        \<and> (ps_status NEW = Some Completed \<or> ps_status NEW = Some Cancelled) \<longrightarrow>
        bay_status_set Available ts (ps_bay_id NEW) bays
          (update_bay_status_trigger ts (UPDATE set_list) OLD NEW bays))
   \<and> (''status'' \<in> set set_list \<and> ps_status OLD = Some Active
        \<and> ps_status NEW = Some Overstay \<longrightarrow>
        bay_status_set Occupied ts (ps_bay_id NEW) bays
          (update_bay_status_trigger ts (UPDATE set_list) OLD NEW bays))
   \<and> (''status'' \<notin> set set_list \<or> ps_status OLD \<noteq> Some Active
        \<or> (ps_status NEW \<noteq> Some Completed \<and> ps_status NEW \<noteq> Some Cancelled
            \<and> ps_status NEW \<noteq> Some Overstay) \<longrightarrow>
        update_bay_status_trigger ts (UPDATE set_list) OLD NEW bays = bays)"
  by (auto simp: update_bay_status_trigger_def update_status_where_bay_id_sets)

text \<open>
  The theorem on the example session and bay: start, completion, overstay, and an update
  of a session that was not active.
\<close>

theorem session_changes_drive_bay_status_witness:
  "update_bay_status_trigger 7 INSERT example_session example_session [example_bay]
     = [example_bay\<lparr>pb_status := Some Occupied, pb_last_status_update := 7\<rparr>]
   \<and> update_bay_status_trigger 8 (UPDATE [''status'', ''end_time'']) example_session
        (example_session\<lparr>ps_status := Some Completed\<rparr>)
        [example_bay\<lparr>pb_status := Some Occupied, pb_last_status_update := 7\<rparr>]
     = [example_bay\<lparr>pb_status := Some Available, pb_last_status_update := 8\<rparr>]
   \<and> update_bay_status_trigger 8 (UPDATE [''status'']) example_session
        (example_session\<lparr>ps_status := Some Overstay\<rparr>)
        [example_bay\<lparr>pb_status := Some Occupied, pb_last_status_update := 7\<rparr>]
     = [example_bay\<lparr>pb_status := Some Occupied, pb_last_status_update := 8\<rparr>]
   \<and> update_bay_status_trigger 9 (UPDATE [''status''])
        (example_session\<lparr>ps_status := Some Completed\<rparr>) example_session
        [example_bay\<lparr>pb_status := Some Closed\<rparr>]
     = [example_bay\<lparr>pb_status := Some Closed\<rparr>]"
  using
    session_changes_drive_bay_status
      [of example_session 7 "[example_bay]" example_session "[''status'']"]
    session_changes_drive_bay_status
      [of "example_session\<lparr>ps_status := Some Completed\<rparr>" 8
          "[example_bay\<lparr>pb_status := Some Occupied, pb_last_status_update := 7\<rparr>]"
          example_session "[''status'', ''end_time'']"]
    session_changes_drive_bay_status
      [of "example_session\<lparr>ps_status := Some Overstay\<rparr>" 8
          "[example_bay\<lparr>pb_status := Some Occupied, pb_last_status_update := 7\<rparr>]"
          example_session "[''status'']"]
    session_changes_drive_bay_status
      [of example_session 9 "[example_bay\<lparr>pb_status := Some Closed\<rparr>]"
          "example_session\<lparr>ps_status := Some Completed\<rparr>" "[''status'']"]
  by (simp add: update_bay_status_trigger_def update_status_where_bay_id_def
      example_eval)

text \<open>
  C8. The status change made for a session is an unconditional assignment: when an active
  session is inserted, every bay row with the session's bay identifier becomes occupied
  whatever status it had, and the resulting table does not depend on the status those
  rows had before. The function has no error result.
\<close>

theorem session_start_sets_occupied_unconditionally:
  "(ps_status NEW = Some Active \<and> pb \<in> set bays \<and> Some (pb_bay_id pb) = ps_bay_id NEW \<longrightarrow>
      pb\<lparr>pb_status := Some Occupied, pb_last_status_update := ts\<rparr>
        \<in> set (update_bay_status_trigger ts INSERT OLD NEW bays))
   \<and> (ps_status NEW = Some Active \<longrightarrow>
        update_bay_status_trigger ts INSERT OLD NEW
          (map (\<lambda>pb. if Some (pb_bay_id pb) = ps_bay_id NEW
                     then pb\<lparr>pb_status := current pb\<rparr> else pb) bays)
        = update_bay_status_trigger ts INSERT OLD NEW bays)"
  by (auto simp: update_bay_status_trigger_def update_status_where_bay_id_def)

text \<open>
  The theorem on the example bay: a closed bay becomes occupied, and the result is the
  same from an occupied and from an available bay.
\<close>

theorem session_start_sets_occupied_unconditionally_witness:
  "update_bay_status_trigger 7 INSERT example_session example_session
     [example_bay\<lparr>pb_status := Some Closed\<rparr>]
     = [example_bay\<lparr>pb_status := Some Occupied, pb_last_status_update := 7\<rparr>]
   \<and> update_bay_status_trigger 7 INSERT example_session example_session
       [example_bay\<lparr>pb_status := Some Occupied\<rparr>]
     = update_bay_status_trigger 7 INSERT example_session example_session
       [example_bay\<lparr>pb_status := Some Available\<rparr>]"
  using
    session_start_sets_occupied_unconditionally
      [of example_session "example_bay\<lparr>pb_status := Some Closed\<rparr>"
          "[example_bay\<lparr>pb_status := Some Closed\<rparr>]" 7 example_session "\<lambda>pb. Some Occupied"]
  by (simp add: update_bay_status_trigger_def update_status_where_bay_id_def
      example_eval)

text \<open>
  A bay that is reserved, hence not available, when an active session for it is
  inserted: the insert is not refused and the bay's status is overwritten with occupied.
\<close>

theorem session_start_overwrites_reserved_bay_counterexample:
  "pb_bay_id example_bay = 1 \<and> ps_bay_id example_session = Some 1
   \<and> ps_status example_session = Some Active
   \<and> pb_status (example_bay\<lparr>pb_status := Some Reserved\<rparr>) \<noteq> Some Available
   \<and> map pb_status
        (update_bay_status_trigger 7 INSERT example_session example_session
           [example_bay\<lparr>pb_status := Some Reserved\<rparr>]) = [Some Occupied]"
  by (simp add: update_bay_status_trigger_def update_status_where_bay_id_def
      example_eval)

end
